theory Spec2Isabelle
  imports
    Complex_Main
    "HOL-Library.Multiset"
    "HOL-Library.Char_ord"
    "HOL-Library.List_Lexorder"
    "HOL-Library.Product_Lexorder"
begin

section \<open>Python values used by aemetapi.py\<close>

text \<open>
  The module works on JSON objects decoded into Python dictionaries and on
  dictionaries it builds itself. A dictionary is a finite map from key strings to
  values; looking up a missing key raises \<open>KeyError\<close>, operating on a value of the
  wrong kind raises \<open>TypeError\<close>, and \<open>strptime\<close> raises \<open>ValueError\<close> on text that
  does not match its format. Every such raise is an \<open>Inl\<close> result of the model.

  Strings are lists of code points below 256. JSON numbers are exact rationals:
  Python's \<open>int\<close> and \<open>float\<close> are not told apart, and the rounding of binary
  floating point is not modelled. The values of a record are \<open>null\<close>, strings and
  numbers, and the datetimes the module itself stores; JSON booleans, arrays and
  objects as field values are left out.
\<close>

datatype py_error =
    KeyError string
  | ValueError
  | TypeError
  | RequestException  \<comment> \<open>any failure of \<open>requests\<close> or of JSON decoding\<close>

record datetime =
  year :: nat
  month :: nat
  day :: nat
  hour :: nat
  minute :: nat
  second :: nat

text \<open>
  A timezone-aware datetime, as \<open>astimezone\<close> returns it: the wall-clock time in the
  zone and the zone's offset from UTC in minutes.
\<close>

type_synonym aware_datetime = "datetime \<times> int"

datatype pyval =
    PyNone
  | PyStr string
  | PyNum rat
  | PyDatetime datetime
  | PyAware aware_datetime

type_synonym pydict = "string \<rightharpoonup> pyval"

definition getitem :: "pydict \<Rightarrow> string \<Rightarrow> py_error + pyval" where
  "getitem d k = (case d k of None \<Rightarrow> Inl (KeyError k) | Some v \<Rightarrow> Inr v)"

text \<open>
  Naive datetimes compare chronologically, field by field from the year down.
\<close>

definition chron :: "datetime \<Rightarrow> nat \<times> nat \<times> nat \<times> nat \<times> nat \<times> nat" where
  "chron t = (year t, month t, day t, hour t, minute t, second t)"

text \<open>
  Python's \<open><\<close> on the values above: strings compare lexicographically by code
  point, numbers numerically, naive datetimes chronologically; \<open>None\<close> is not
  ordered, and values of different kinds are not comparable. Aware datetimes never
  reach a comparison in this module and are left out of the ordered kinds.
\<close>

fun py_lt :: "pyval \<Rightarrow> pyval \<Rightarrow> py_error + bool" where
  "py_lt (PyStr a) (PyStr b) = Inr (a < b)"
| "py_lt (PyNum a) (PyNum b) = Inr (a < b)"
| "py_lt (PyDatetime a) (PyDatetime b) = Inr (chron a < chron b)"
| "py_lt _ _ = Inl TypeError"

section \<open>\<open>datetime.strptime\<close> with the format \<open>%Y-%m-%dT%H:%M:%S\<close>\<close>

text \<open>
  CPython turns the format into the regular expression
  \<^verbatim>\<open>(\d\d\d\d)-(1[0-2]|0[1-9]|[1-9])-(3[0-1]|[1-2]\d|0[1-9]|[1-9]| [1-9])T(2[0-3]|[0-1]\d|\d):([0-5]\d|\d):(6[0-1]|[0-5]\d|\d)\<close>,
  matched ignoring case against the whole text. No field can contain a separator,
  so each field is the text up to the next separator. The numbers found are then
  handed to the \<open>datetime\<close> constructor, which checks the calendar.
\<close>

definition is_digit :: "char \<Rightarrow> bool" where
  "is_digit c = (CHR ''0'' \<le> c \<and> c \<le> CHR ''9'')"

definition in_range :: "char \<Rightarrow> char \<Rightarrow> char \<Rightarrow> bool" where
  "in_range lo hi c = (lo \<le> c \<and> c \<le> hi)"

definition digit_val :: "char \<Rightarrow> nat" where
  "digit_val c = of_char c - 48"

definition int_of_digits :: "string \<Rightarrow> nat" where
  "int_of_digits s = foldl (\<lambda>a c. 10 * a + digit_val c) 0 s"

fun re_Y :: "string \<Rightarrow> bool" where
  "re_Y [a, b, c, d] = (is_digit a \<and> is_digit b \<and> is_digit c \<and> is_digit d)"
| "re_Y _ = False"

fun re_m :: "string \<Rightarrow> bool" where
  "re_m [a, b] = (a = CHR ''1'' \<and> in_range (CHR ''0'') (CHR ''2'') b
                \<or> a = CHR ''0'' \<and> in_range (CHR ''1'') (CHR ''9'') b)"
| "re_m [a] = in_range (CHR ''1'') (CHR ''9'') a"
| "re_m _ = False"

fun re_d :: "string \<Rightarrow> bool" where
  "re_d [a, b] = (a = CHR ''3'' \<and> in_range (CHR ''0'') (CHR ''1'') b
                \<or> in_range (CHR ''1'') (CHR ''2'') a \<and> is_digit b
                \<or> a = CHR ''0'' \<and> in_range (CHR ''1'') (CHR ''9'') b
                \<or> a = CHR '' '' \<and> in_range (CHR ''1'') (CHR ''9'') b)"
| "re_d [a] = in_range (CHR ''1'') (CHR ''9'') a"
| "re_d _ = False"

fun re_H :: "string \<Rightarrow> bool" where
  "re_H [a, b] = (a = CHR ''2'' \<and> in_range (CHR ''0'') (CHR ''3'') b
                \<or> in_range (CHR ''0'') (CHR ''1'') a \<and> is_digit b)"
| "re_H [a] = is_digit a"
| "re_H _ = False"

fun re_M :: "string \<Rightarrow> bool" where
  "re_M [a, b] = (in_range (CHR ''0'') (CHR ''5'') a \<and> is_digit b)"
| "re_M [a] = is_digit a"
| "re_M _ = False"

fun re_S :: "string \<Rightarrow> bool" where
  "re_S [a, b] = (a = CHR ''6'' \<and> in_range (CHR ''0'') (CHR ''1'') b
                \<or> in_range (CHR ''0'') (CHR ''5'') a \<and> is_digit b)"
| "re_S [a] = is_digit a"
| "re_S _ = False"

text \<open>\<open>split_on p s\<close> cuts \<open>s\<close> at its first character satisfying \<open>p\<close>.\<close>

definition split_on :: "(char \<Rightarrow> bool) \<Rightarrow> string \<Rightarrow> (string \<times> string) option" where
  "split_on p s =
     (case dropWhile (\<lambda>c. \<not> p c) s of
        [] \<Rightarrow> None
      | c # rest \<Rightarrow> Some (takeWhile (\<lambda>c. \<not> p c) s, rest))"

text \<open>\<open>int\<close> of a matched day field skips the leading blank the pattern allows.\<close>

definition int_of_day :: "string \<Rightarrow> nat" where
  "int_of_day s = int_of_digits (dropWhile (\<lambda>c. c = CHR '' '') s)"

definition is_leap :: "nat \<Rightarrow> bool" where
  "is_leap y = (y mod 4 = 0 \<and> (y mod 100 \<noteq> 0 \<or> y mod 400 = 0))"

definition days_in_month :: "nat \<Rightarrow> nat \<Rightarrow> nat" where
  "days_in_month y m =
     (if m = 2 then (if is_leap y then 29 else 28)
      else if m = 4 \<or> m = 6 \<or> m = 9 \<or> m = 11 then 30 else 31)"

text \<open>
  The \<open>datetime\<close> constructor: years 1 to 9999, a day that exists in the month,
  seconds below 60 (the pattern lets 60 and 61 through, the constructor does not).
\<close>

definition make_datetime :: "nat \<Rightarrow> nat \<Rightarrow> nat \<Rightarrow> nat \<Rightarrow> nat \<Rightarrow> nat \<Rightarrow> py_error + datetime" where
  "make_datetime y m d H M S =
     (if 1 \<le> y \<and> y \<le> 9999 \<and> 1 \<le> m \<and> m \<le> 12 \<and> 1 \<le> d \<and> d \<le> days_in_month y m
         \<and> H \<le> 23 \<and> M \<le> 59 \<and> S \<le> 59
      then Inr \<lparr>year = y, month = m, day = d, hour = H, minute = M, second = S\<rparr>
      else Inl ValueError)"

definition strptime :: "string \<Rightarrow> py_error + datetime" where
  "strptime s =
     (case split_on (\<lambda>c. c = CHR ''-'') s of
        None \<Rightarrow> Inl ValueError
      | Some (fY, r1) \<Rightarrow>
     (case split_on (\<lambda>c. c = CHR ''-'') r1 of
        None \<Rightarrow> Inl ValueError
      | Some (fm, r2) \<Rightarrow>
     (case split_on (\<lambda>c. c = CHR ''T'' \<or> c = CHR ''t'') r2 of
        None \<Rightarrow> Inl ValueError
      | Some (fd, r3) \<Rightarrow>
     (case split_on (\<lambda>c. c = CHR '':'') r3 of
        None \<Rightarrow> Inl ValueError
      | Some (fH, r4) \<Rightarrow>
     (case split_on (\<lambda>c. c = CHR '':'') r4 of
        None \<Rightarrow> Inl ValueError
      | Some (fM, fS) \<Rightarrow>
          if re_Y fY \<and> re_m fm \<and> re_d fd \<and> re_H fH \<and> re_M fM \<and> re_S fS
          then make_datetime (int_of_digits fY) (int_of_digits fm) (int_of_day fd)
                 (int_of_digits fH) (int_of_digits fM) (int_of_digits fS)
          else Inl ValueError)))))"

text \<open>Applied to a dictionary value, \<open>strptime\<close> wants a string.\<close>

fun strptime_val :: "pyval \<Rightarrow> py_error + datetime" where
  "strptime_val (PyStr s) = strptime s"
| "strptime_val _ = Inl TypeError"

section \<open>\<open>sort_data\<close>\<close>

text \<open>
  \<^verbatim>\<open>sorted(data, key=lambda x: x['fhora'] if 'fhora' in x else x['utc_datetime'])\<close>

  \<open>sorted\<close> first computes the key of every element, in order, then sorts stably
  with \<open><\<close> on the keys: equal keys keep their input order. The result of a stable
  sort does not depend on the algorithm; the model inserts from the right. A list
  with fewer than two elements is never compared. With two or more elements every
  element takes part in a comparison, so keys that are not mutually comparable
  raise \<open>TypeError\<close>.
\<close>

text \<open>The key function, the \<open>lambda\<close> of line 72.\<close>

definition effective_key :: "pydict \<Rightarrow> py_error + pyval" where
  "effective_key x = (if ''fhora'' \<in> dom x then getitem x ''fhora'' else getitem x ''utc_datetime'')"

fun keys_of :: "pydict list \<Rightarrow> py_error + (pyval \<times> pydict) list" where
  "keys_of [] = Inr []"
| "keys_of (x # xs) =
     (case effective_key x of
        Inl e \<Rightarrow> Inl e
      | Inr k \<Rightarrow> (case keys_of xs of Inl e \<Rightarrow> Inl e | Inr ks \<Rightarrow> Inr ((k, x) # ks)))"

fun insort_py :: "pyval \<times> 'a \<Rightarrow> (pyval \<times> 'a) list \<Rightarrow> py_error + (pyval \<times> 'a) list" where
  "insort_py x [] = Inr [x]"
| "insort_py x (y # ys) =
     (case py_lt (fst y) (fst x) of
        Inl e \<Rightarrow> Inl e
      | Inr True \<Rightarrow> (case insort_py x ys of Inl e \<Rightarrow> Inl e | Inr zs \<Rightarrow> Inr (y # zs))
      | Inr False \<Rightarrow> Inr (x # y # ys))"

fun sorted_py :: "(pyval \<times> 'a) list \<Rightarrow> py_error + (pyval \<times> 'a) list" where
  "sorted_py [] = Inr []"
| "sorted_py (x # xs) =
     (case sorted_py xs of Inl e \<Rightarrow> Inl e | Inr ys \<Rightarrow> insort_py x ys)"

definition sort_data :: "pydict list \<Rightarrow> py_error + pydict list" where
  "sort_data data =
     (case keys_of data of
        Inl e \<Rightarrow> Inl e
      | Inr ks \<Rightarrow> (case sorted_py ks of Inl e \<Rightarrow> Inl e | Inr ys \<Rightarrow> Inr (map snd ys)))"

section \<open>The \<open>AEMETApi\<close> object\<close>

record api =
  api_key :: string
  base_url :: string
  stations :: "(string \<times> string) list"
  time_aggregation_options :: "string option list"
  local_timezone :: "datetime \<Rightarrow> aware_datetime"

text \<open>
  \<open>__init__\<close>. The catalog is a dictionary literal; it is kept as an association
  list because its printed form depends on the insertion order. The time zone
  object is represented by what the module uses it for: converting a UTC time to
  an aware local time (\<open>time.replace(tzinfo=pytz.utc).astimezone(tz)\<close>), a function
  of the time zone database. The conversion is taken to succeed on every time; in
  Python it overflows only within a day of the two ends of the calendar.
\<close>

definition AEMETApi :: "string \<Rightarrow> (datetime \<Rightarrow> aware_datetime) \<Rightarrow> api" where
  "AEMETApi apikey tz =
     \<lparr>api_key = apikey,
      base_url = ''https://opendata.aemet.es/opendata'',
      stations = [(''89064'', ''Juan Carlos I Meteorological Station''),
                  (''89070'', ''Gabriel de Castilla Meteorological Station}'')],
      time_aggregation_options = [None, Some ''Hourly'', Some ''Daily'', Some ''Monthly''],
      local_timezone = tz\<rparr>"

text \<open>
  The network: what a \<open>GET\<close> of the metadata endpoint decodes to (\<open>response.json()\<close>,
  given the URL and the API key), and what a \<open>GET\<close> of a dataset URL decodes to
  (\<open>json.loads(requests.get(data_url).text)\<close>). The dataset is a list of objects;
  a fetch that fails, and a payload of another shape, are the \<open>Inl\<close> answers.
\<close>

record network =
  get_json :: "string \<Rightarrow> string \<Rightarrow> py_error + pydict"
  get_dataset :: "string \<Rightarrow> py_error + pydict list"

text \<open>Functions that reach the network also return the URLs they requested, in order.\<close>

definition get_data :: "api \<Rightarrow> network \<Rightarrow> string \<Rightarrow> (py_error + pydict) \<times> string list" where
  "get_data self net endpoint =
     (get_json net (base_url self @ endpoint) (api_key self), [base_url self @ endpoint])"

section \<open>\<open>aggregate_data\<close>\<close>

text \<open>The dictionary literal of lines 102 to 109, with its six fixed keys.\<close>

record bucket =
  station :: pyval
  utc_datetime :: datetime
  datetime :: aware_datetime
  temperature :: pyval
  pressure :: pyval
  speed :: pyval

text \<open>
  The loop has two variables. \<open>aggregated_data\<close> is the output list.
  \<open>aggregated_item\<close> is a reference: it starts as a fresh empty dictionary that is
  in no list (\<open>None\<close>), and after an append it is the very object that was appended,
  \<open>Some i\<close> for the object at position \<open>i\<close> of \<open>aggregated_data\<close>. An assignment
  through \<open>aggregated_item\<close> is therefore an update of that position.
\<close>

record agg_state =
  aggregated_data :: "bucket list"
  aggregated_item :: "nat option"

text \<open>Truth value of the \<open>time_aggregation\<close> argument: \<open>None\<close> and the empty string are false.\<close>

definition truthy :: "string option \<Rightarrow> bool" where
  "truthy g = (case g of None \<Rightarrow> False | Some s \<Rightarrow> s \<noteq> [])"

text \<open>Line 95, the value of \<open>aggregate\<close>.\<close>

definition aggregate :: "string option \<Rightarrow> datetime \<Rightarrow> datetime \<Rightarrow> bool" where
  "aggregate time_aggregation last_time time =
     (time_aggregation = Some ''Hourly'' \<and> hour last_time = hour time
      \<or> time_aggregation = Some ''Daily'' \<and> day last_time = day time
      \<or> time_aggregation = Some ''Monthly'' \<and> month last_time = month time)"

text \<open>\<open>(a + b) / 2\<close>: defined on two numbers; every other pair of values raises \<open>TypeError\<close>.\<close>

fun average :: "pyval \<Rightarrow> pyval \<Rightarrow> py_error + pyval" where
  "average (PyNum a) (PyNum b) = Inr (PyNum ((a + b) / 2))"
| "average _ _ = Inl TypeError"

text \<open>Lines 97 to 99: the three assignments through \<open>aggregated_item\<close>.\<close>

definition merge_item :: "agg_state \<Rightarrow> pydict \<Rightarrow> py_error + agg_state" where
  "merge_item s item =
     (case aggregated_item s of
        None \<Rightarrow> Inl (KeyError ''temperature'')
      | Some i \<Rightarrow>
     (case getitem item ''temp'' of Inl e \<Rightarrow> Inl e | Inr x \<Rightarrow>
     (case average (temperature (aggregated_data s ! i)) x of Inl e \<Rightarrow> Inl e | Inr t \<Rightarrow>
     (case getitem item ''pres'' of Inl e \<Rightarrow> Inl e | Inr y \<Rightarrow>
     (case average (pressure (aggregated_data s ! i)) y of Inl e \<Rightarrow> Inl e | Inr p \<Rightarrow>
     (case getitem item ''vel'' of Inl e \<Rightarrow> Inl e | Inr z \<Rightarrow>
     (case average (speed (aggregated_data s ! i)) z of Inl e \<Rightarrow> Inl e | Inr v \<Rightarrow>
        Inr (s\<lparr>aggregated_data :=
                 (aggregated_data s)[i := (aggregated_data s ! i)
                    \<lparr>temperature := t, pressure := p, speed := v\<rparr>]\<rparr>))))))))"

text \<open>Lines 102 to 110: a new dictionary is built, appended, and becomes \<open>aggregated_item\<close>.\<close>

definition new_item :: "api \<Rightarrow> agg_state \<Rightarrow> pydict \<Rightarrow> datetime \<Rightarrow> py_error + agg_state" where
  "new_item self s item time =
     (case getitem item ''nombre'' of Inl e \<Rightarrow> Inl e | Inr n \<Rightarrow>
     (case getitem item ''temp'' of Inl e \<Rightarrow> Inl e | Inr t \<Rightarrow>
     (case getitem item ''pres'' of Inl e \<Rightarrow> Inl e | Inr p \<Rightarrow>
     (case getitem item ''vel'' of Inl e \<Rightarrow> Inl e | Inr v \<Rightarrow>
        Inr \<lparr>aggregated_data = aggregated_data s @
               [\<lparr>station = n, utc_datetime = time, datetime = local_timezone self time,
                 temperature = t, pressure = p, speed = v\<rparr>],
             aggregated_item = Some (length (aggregated_data s))\<rparr>))))"

text \<open>Line 91: \<open>time = datetime.strptime(item["fhora"], "%Y-%m-%dT%H:%M:%S")\<close>.\<close>

definition parsed_time :: "pydict \<Rightarrow> py_error + datetime" where
  "parsed_time item =
     (case getitem item ''fhora'' of Inl e \<Rightarrow> Inl e | Inr f \<Rightarrow> strptime_val f)"

text \<open>Lines 91 to 110: one iteration of the loop.\<close>

definition loop_body :: "api \<Rightarrow> string option \<Rightarrow> agg_state \<Rightarrow> pydict \<Rightarrow> py_error + agg_state" where
  "loop_body self time_aggregation s item =
     (case parsed_time item of Inl e \<Rightarrow> Inl e | Inr time \<Rightarrow>
        if length (aggregated_data s) > 0 \<and> truthy time_aggregation
           \<and> aggregate time_aggregation (utc_datetime (last (aggregated_data s))) time
        then merge_item s item
        else new_item self s item time)"

fun loop :: "api \<Rightarrow> string option \<Rightarrow> agg_state \<Rightarrow> pydict list \<Rightarrow> py_error + agg_state" where
  "loop self time_aggregation s [] = Inr s"
| "loop self time_aggregation s (item # items) =
     (case loop_body self time_aggregation s item of
        Inl e \<Rightarrow> Inl e
      | Inr s' \<Rightarrow> loop self time_aggregation s' items)"

text \<open>Lines 82 to 112: everything after the data has been loaded.\<close>

definition aggregate_rows :: "api \<Rightarrow> pydict list \<Rightarrow> string option \<Rightarrow> py_error + bucket list" where
  "aggregate_rows self data time_aggregation =
     (if length data = 0 then Inr []
      else
        (case sort_data data of
           Inl e \<Rightarrow> Inl e
         | Inr sorted_data \<Rightarrow>
        (case loop self time_aggregation \<lparr>aggregated_data = [], aggregated_item = None\<rparr> sorted_data of
           Inl e \<Rightarrow> Inl e
         | Inr s \<Rightarrow> Inr (aggregated_data s))))"

text \<open>
  Line 80 loads the data from the URL, which must be a string for \<open>requests\<close> to
  fetch anything.
\<close>

definition aggregate_data ::
  "api \<Rightarrow> network \<Rightarrow> pyval \<Rightarrow> string option \<Rightarrow> (py_error + bucket list) \<times> string list" where
  "aggregate_data self net data_url time_aggregation =
     (case data_url of
        PyStr url \<Rightarrow>
          (case get_dataset net url of
             Inl e \<Rightarrow> (Inl e, [url])
           | Inr data \<Rightarrow> (aggregate_rows self data time_aggregation, [url]))
      | _ \<Rightarrow> (Inl RequestException, []))"

section \<open>\<open>get_antarctica_data\<close>\<close>

text \<open>\<open>sep.join(xs)\<close>.\<close>

fun join :: "string \<Rightarrow> string list \<Rightarrow> string" where
  "join sep [] = []"
| "join sep [x] = x"
| "join sep (x # y # ys) = x @ sep @ join sep (y # ys)"

text \<open>
  \<open>repr\<close> of a string, which \<open>%s\<close> applies to the keys and values of a dictionary:
  single quotes unless the text has a single quote and no double quote; the quote
  and the backslash are escaped, tab, newline and return have their letters, and
  any other code point that is not printable is written \<open>\xhh\<close>.
\<close>

definition hex_digit :: "nat \<Rightarrow> char" where
  "hex_digit n = (''0123456789abcdef'') ! (n mod 16)"

definition printable :: "char \<Rightarrow> bool" where
  "printable c = (32 \<le> (of_char c :: nat) \<and> (of_char c :: nat) < 127
                  \<or> 161 \<le> (of_char c :: nat) \<and> (of_char c :: nat) \<noteq> 173)"

definition repr_char :: "char \<Rightarrow> char \<Rightarrow> string" where
  "repr_char q c =
     (if c = q \<or> c = CHR 0x5C then [CHR 0x5C, c]
      else if c = CHR 0x09 then [CHR 0x5C, CHR ''t'']
      else if c = CHR 0x0A then [CHR 0x5C, CHR ''n'']
      else if c = CHR 0x0D then [CHR 0x5C, CHR ''r'']
      else if printable c then [c]
      else [CHR 0x5C, CHR ''x'', hex_digit (of_char c div 16), hex_digit (of_char c)])"

definition repr_str :: "string \<Rightarrow> string" where
  "repr_str s =
     (let q = (if CHR 0x27 \<in> set s \<and> CHR 0x22 \<notin> set s then CHR 0x22 else CHR 0x27)
      in [q] @ concat (map (repr_char q) s) @ [q])"

text \<open>\<open>"%s" % d\<close> for a dictionary of strings: its \<open>repr\<close>, entries in insertion order.\<close>

definition repr_dict :: "(string \<times> string) list \<Rightarrow> string" where
  "repr_dict d =
     ''{'' @ join '', '' (map (\<lambda>(k, v). repr_str k @ '': '' @ repr_str v) d) @ ''}''"

text \<open>
  The returned dictionary: its values are plain values or the list of aggregated
  records.
\<close>

datatype envval = Scalar pyval | Rows "bucket list"

type_synonym envelope = "string \<rightharpoonup> envval"

definition get_antarctica_data ::
  "api \<Rightarrow> network \<Rightarrow> string \<Rightarrow> string \<Rightarrow> string \<Rightarrow> string option
     \<Rightarrow> (py_error + envelope) \<times> string list" where
  "get_antarctica_data self net start_date end_date station_id time_aggregation =
     (if time_aggregation \<notin> set (time_aggregation_options self) then
        (Inr [''status'' \<mapsto> Scalar (PyStr ''400''),
              ''description'' \<mapsto> Scalar (PyStr
                 (''Validation failure. Time aggregation not valid must be one of: '' @
                  join '', '' (map (\<lambda>item. case item of None \<Rightarrow> ''None'' | Some i \<Rightarrow> i)
                                 (time_aggregation_options self)))),
              ''data'' \<mapsto> Rows []], [])
      else if station_id \<notin> set (map fst (stations self)) then
        (Inr [''status'' \<mapsto> Scalar (PyStr ''400''),
              ''description'' \<mapsto> Scalar (PyStr
                 (''Validation failure. Station id must be one of: '' @
                  repr_dict (stations self))),
              ''dataset'' \<mapsto> Rows []], [])
      else
        (case get_data self net
                (''/api/antartida/datos/fechaini/'' @ start_date @ ''/fechafin/'' @ end_date
                 @ ''/estacion/'' @ station_id) of
           (Inl e, io) \<Rightarrow> (Inl e, io)
         | (Inr response, io) \<Rightarrow>
        (case getitem response ''estado'' of
           Inl e \<Rightarrow> (Inl e, io)
         | Inr estado \<Rightarrow>
             if estado = PyNum 200 \<and> ''datos'' \<in> dom response then
               (case getitem response ''datos'' of
                  Inl e \<Rightarrow> (Inl e, io)
                | Inr datos \<Rightarrow>
               (case aggregate_data self net datos time_aggregation of
                  (Inl e, io') \<Rightarrow> (Inl e, io @ io')
                | (Inr dataset, io') \<Rightarrow>
                    (Inr [''status'' \<mapsto> Scalar (PyNum 200),
                          ''description'' \<mapsto> Scalar (PyStr ''OK''),
                          ''dataset'' \<mapsto> Rows dataset], io @ io')))
             else
               (case getitem response ''descripcion'' of
                  Inl e \<Rightarrow> (Inl e, io)
                | Inr descripcion \<Rightarrow>
                    (Inr [''status'' \<mapsto> Scalar estado,
                          ''description'' \<mapsto> Scalar descripcion,
                          ''dataset'' \<mapsto> Rows []], io)))))"

section \<open>Notions used in the statements\<close>

text \<open>The URL that \<open>get_antarctica_data\<close> requests: the base URL followed by the endpoint of line 53.\<close>

definition endpoint_url :: "api \<Rightarrow> string \<Rightarrow> string \<Rightarrow> string \<Rightarrow> string" where
  "endpoint_url self start_date end_date station_id =
     base_url self @ ''/api/antartida/datos/fechaini/'' @ start_date @ ''/fechafin/'' @ end_date
       @ ''/estacion/'' @ station_id"

text \<open>
  The envelope of a failure as the specification words it: a numeric status code, a
  description string and an empty \<open>dataset\<close> field.
\<close>

definition uniform_failure_envelope :: "envelope \<Rightarrow> bool" where
  "uniform_failure_envelope e =
     ((case e ''status'' of Some (Scalar (PyNum n)) \<Rightarrow> True | _ \<Rightarrow> False)
      \<and> (case e ''description'' of Some (Scalar (PyStr d)) \<Rightarrow> True | _ \<Rightarrow> False)
      \<and> e ''dataset'' = Some (Rows []))"



text \<open>
  \<open>key_le a b\<close>: both records have a key and the key of \<open>b\<close> is not below the key of
  \<open>a\<close>. A list is non-decreasing under the effective sort key when \<open>key_le\<close> holds
  from every element to every later one.
\<close>

definition key_le :: "pydict \<Rightarrow> pydict \<Rightarrow> bool" where
  "key_le a b =
     (case (effective_key a, effective_key b) of
        (Inr ka, Inr kb) \<Rightarrow> py_lt kb ka = Inr False
      | _ \<Rightarrow> False)"

text \<open>The key of a record read as a string, as a number, and as a point in time.\<close>

definition str_key :: "pydict \<Rightarrow> string" where
  "str_key x = (case effective_key x of Inr (PyStr s) \<Rightarrow> s | _ \<Rightarrow> [])"



text \<open>
  The link between the two loop variables: \<open>aggregated_item\<close> is the fresh empty
  dictionary exactly as long as nothing has been appended, and afterwards it is the
  last element of \<open>aggregated_data\<close>.
\<close>

definition last_is_current :: "agg_state \<Rightarrow> bool" where
  "last_is_current s =
     (case aggregated_item s of
        None \<Rightarrow> aggregated_data s = []
      | Some i \<Rightarrow> aggregated_data s \<noteq> [] \<and> i = length (aggregated_data s) - 1)"



text \<open>
  The timestamp format the upstream service documents, \<open>YYYY-MM-DDTHH:MM:SS\<close>:
  nineteen characters, every field zero-padded to its full width, a capital \<open>T\<close>.
\<close>

fun canonical :: "string \<Rightarrow> bool" where
  "canonical [y1, y2, y3, y4, a, m1, m2, b, d1, d2, c, h1, h2, e, n1, n2, g, s1, s2] =
     (list_all is_digit [y1, y2, y3, y4, m1, m2, d1, d2, h1, h2, n1, n2, s1, s2]
      \<and> a = CHR ''-'' \<and> b = CHR ''-'' \<and> c = CHR ''T'' \<and> e = CHR '':'' \<and> g = CHR '':'')"
| "canonical _ = False"

text \<open>A record whose \<open>fhora\<close> is a string in that format.\<close>

definition canonical_record :: "pydict \<Rightarrow> bool" where
  "canonical_record r = (case r ''fhora'' of Some (PyStr f) \<Rightarrow> canonical f | _ \<Rightarrow> False)"

text \<open>A list of aggregated records in chronological order of their UTC timestamps.\<close>

definition chronological :: "bucket list \<Rightarrow> bool" where
  "chronological out = sorted (map (\<lambda>b. chron (utc_datetime b)) out)"

section \<open>Concrete instances for the examples\<close>

text \<open>The time zone UTC itself, a network that is down, and a network with fixed answers.\<close>

definition utc_zone :: "datetime \<Rightarrow> aware_datetime" where
  "utc_zone t = (t, 0)"

definition offline :: network where
  "offline = \<lparr>get_json = (\<lambda>url key. Inl RequestException),
              get_dataset = (\<lambda>url. Inl RequestException)\<rparr>"

definition serving :: "pydict \<Rightarrow> pydict list \<Rightarrow> network" where
  "serving response data = \<lparr>get_json = (\<lambda>url key. Inr response),
              get_dataset = (\<lambda>url. Inr data)\<rparr>"

definition error_response :: pydict where
  "error_response =
     [''estado'' \<mapsto> PyNum 404,
      ''descripcion'' \<mapsto> PyStr ''No hay datos que satisfagan esos criterios'']"

definition empty_ok_response :: pydict where
  "empty_ok_response = [''estado'' \<mapsto> PyNum 200, ''descripcion'' \<mapsto> PyStr ''exito'']"

text \<open>
  A raw observation as the dataset URL delivers it, and an aggregated record seen
  as the dictionary it is.
\<close>

definition raw_observation :: "string \<Rightarrow> string \<Rightarrow> rat \<Rightarrow> rat \<Rightarrow> rat \<Rightarrow> pydict" where
  "raw_observation f n t p v =
     [''fhora'' \<mapsto> PyStr f, ''nombre'' \<mapsto> PyStr n,
      ''temp'' \<mapsto> PyNum t, ''pres'' \<mapsto> PyNum p, ''vel'' \<mapsto> PyNum v]"


text \<open>
  The state of the loop after one observation of station \<open>JCI\<close>, taken on
  1 July 2022 at 14:00 with temperature 10, pressure 1000 and speed 3.
\<close>

definition example_state :: agg_state where
  "example_state =
     \<lparr>aggregated_data =
        [\<lparr>station = PyStr ''JCI'',
          utc_datetime = \<lparr>year = 2022, month = 7, day = 1, hour = 14, minute = 0, second = 0\<rparr>,
          datetime = (\<lparr>year = 2022, month = 7, day = 1, hour = 14, minute = 0, second = 0\<rparr>, 0),
          temperature = PyNum 10, pressure = PyNum 1000, speed = PyNum 3\<rparr>],
      aggregated_item = Some 0\<rparr>"

text \<open>
  The same state after two more observations under \<open>Daily\<close>: one of the same day,
  which was merged, and one of 2 July, which opened a second bucket.
\<close>

definition example_state_after :: agg_state where
  "example_state_after =
     \<lparr>aggregated_data =
        [\<lparr>station = PyStr ''JCI'',
          utc_datetime = \<lparr>year = 2022, month = 7, day = 1, hour = 14, minute = 0, second = 0\<rparr>,
          datetime = (\<lparr>year = 2022, month = 7, day = 1, hour = 14, minute = 0, second = 0\<rparr>, 0),
          temperature = PyNum 15, pressure = PyNum 1001, speed = PyNum 4\<rparr>,
         \<lparr>station = PyStr ''JCI'',
          utc_datetime = \<lparr>year = 2022, month = 7, day = 2, hour = 9, minute = 0, second = 0\<rparr>,
          datetime = (\<lparr>year = 2022, month = 7, day = 2, hour = 9, minute = 0, second = 0\<rparr>, 0),
          temperature = PyNum 30, pressure = PyNum 1004, speed = PyNum 7\<rparr>],
      aggregated_item = Some 1\<rparr>"

section \<open>The result of \<open>get_antarctica_data\<close>, path by path\<close>

lemma bad_granularity:
  "time_aggregation \<notin> set (time_aggregation_options self) \<Longrightarrow>
   get_antarctica_data self net start_date end_date station_id time_aggregation =
     (Inr [''status'' \<mapsto> Scalar (PyStr ''400''),
           ''description'' \<mapsto> Scalar (PyStr
              (''Validation failure. Time aggregation not valid must be one of: '' @
               join '', '' (map (\<lambda>item. case item of None \<Rightarrow> ''None'' | Some i \<Rightarrow> i)
                              (time_aggregation_options self)))),
           ''data'' \<mapsto> Rows []], [])"
  by (simp add: get_antarctica_data_def)

lemma bad_station:
  "time_aggregation \<in> set (time_aggregation_options self) \<Longrightarrow>
   station_id \<notin> set (map fst (stations self)) \<Longrightarrow>
   get_antarctica_data self net start_date end_date station_id time_aggregation =
     (Inr [''status'' \<mapsto> Scalar (PyStr ''400''),
              ''description'' \<mapsto> Scalar (PyStr
                 (''Validation failure. Station id must be one of: '' @
                  repr_dict (stations self))),
              ''dataset'' \<mapsto> Rows []], [])"
  by (simp add: get_antarctica_data_def)

lemma upstream_no_data:
  assumes "time_aggregation \<in> set (time_aggregation_options self)"
    and "station_id \<in> set (map fst (stations self))"
    and "get_json net (endpoint_url self start_date end_date station_id) (api_key self) = Inr response"
    and "response ''estado'' = Some estado"
    and "response ''descripcion'' = Some descripcion"
    and "estado \<noteq> PyNum 200 \<or> ''datos'' \<notin> dom response"
  shows "get_antarctica_data self net start_date end_date station_id time_aggregation =
     (Inr [''status'' \<mapsto> Scalar estado,
           ''description'' \<mapsto> Scalar descripcion,
           ''dataset'' \<mapsto> Rows []], [endpoint_url self start_date end_date station_id])"
  using assms
  by (auto simp add: get_antarctica_data_def get_data_def endpoint_url_def getitem_def)

lemma options_AEMETApi:
  "set (time_aggregation_options (AEMETApi apikey tz)) = {None, Some ''Hourly'', Some ''Daily'', Some ''Monthly''}"
  by (auto simp add: AEMETApi_def)

lemma stations_AEMETApi:
  "set (map fst (stations (AEMETApi apikey tz))) = {''89064'', ''89070''}"
  by (auto simp add: AEMETApi_def)

lemma options_text:
  "join '', '' (map (\<lambda>item. case item of None \<Rightarrow> ''None'' | Some i \<Rightarrow> i)
       (time_aggregation_options (AEMETApi apikey tz))) = ''None, Hourly, Daily, Monthly''"
  by (simp add: AEMETApi_def)

lemma catalog_text:
  "repr_dict (stations (AEMETApi apikey tz)) =
     ''{'' @ [CHR 0x27] @ ''89064'' @ [CHR 0x27] @ '': '' @
       [CHR 0x27] @ ''Juan Carlos I Meteorological Station'' @ [CHR 0x27] @ '', '' @
       [CHR 0x27] @ ''89070'' @ [CHR 0x27] @ '': '' @
       [CHR 0x27] @ ''Gabriel de Castilla Meteorological Station}'' @ [CHR 0x27] @ ''}''"
  by (simp add: AEMETApi_def repr_dict_def repr_str_def repr_char_def printable_def Let_def)

section \<open>Failure envelopes\<close>

text \<open>
  Claim C6, as stated, asks every failure outcome to carry a numeric status code, a
  description string and an empty \<open>dataset\<close> field. A validation failure carries
  its status as the string \<open>400\<close>, not as a number: the request below, for a
  station that is not in the catalog, returns an envelope that is not of the stated
  shape. (The envelope of a granularity failure, in addition, has its empty list
  under \<open>data\<close> and no \<open>dataset\<close> key.)
\<close>

theorem failure_envelope_counterexample:
  "get_antarctica_data (AEMETApi ''key'' utc_zone) offline
       ''2022-07-01T00:00:00UTC'' ''2022-08-04T00:00:00UTC'' ''99999'' (Some ''Monthly'')
     = (Inr [''status'' \<mapsto> Scalar (PyStr ''400''),
             ''description'' \<mapsto> Scalar (PyStr
                (''Validation failure. Station id must be one of: '' @
                 repr_dict (stations (AEMETApi ''key'' utc_zone)))),
             ''dataset'' \<mapsto> Rows []], [])
   \<and> \<not> uniform_failure_envelope
         [''status'' \<mapsto> Scalar (PyStr ''400''),
          ''description'' \<mapsto> Scalar (PyStr
             (''Validation failure. Station id must be one of: '' @
              repr_dict (stations (AEMETApi ''key'' utc_zone)))),
          ''dataset'' \<mapsto> Rows []]"
proof -
  have g: "Some ''Monthly'' \<in> set (time_aggregation_options (AEMETApi ''key'' utc_zone))"
    by (simp add: options_AEMETApi)
  have s: "''99999'' \<notin> set (map fst (stations (AEMETApi ''key'' utc_zone)))"
    by (simp only: stations_AEMETApi) simp
  have "\<not> uniform_failure_envelope
         [''status'' \<mapsto> Scalar (PyStr ''400''),
          ''description'' \<mapsto> Scalar (PyStr
             (''Validation failure. Station id must be one of: '' @
              repr_dict (stations (AEMETApi ''key'' utc_zone)))),
          ''dataset'' \<mapsto> Rows []]"
    by (simp add: uniform_failure_envelope_def)
  with bad_station [OF g s] show ?thesis
    by (intro conjI)
qed

text \<open>
  Claim C6, amended: every validation or upstream failure is returned as an
  envelope with a status and a description. The status is the string \<open>400\<close> for a
  validation failure, with a description string, and it is the upstream \<open>estado\<close>,
  with the upstream \<open>descripcion\<close>, when the upstream answer has no data to offer
  (an \<open>estado\<close> other than 200, or no \<open>datos\<close>). The station failure and the
  upstream failure carry an empty \<open>dataset\<close> field.
\<close>

theorem failure_envelope:
  "(time_aggregation \<notin> set (time_aggregation_options self) \<longrightarrow>
      (\<exists>e d. get_antarctica_data self net start_date end_date station_id time_aggregation = (Inr e, [])
          \<and> e ''status'' = Some (Scalar (PyStr ''400''))
          \<and> e ''description'' = Some (Scalar (PyStr d))))
   \<and> (time_aggregation \<in> set (time_aggregation_options self)
        \<and> station_id \<notin> set (map fst (stations self)) \<longrightarrow>
      (\<exists>e d. get_antarctica_data self net start_date end_date station_id time_aggregation = (Inr e, [])
          \<and> e ''status'' = Some (Scalar (PyStr ''400''))
          \<and> e ''description'' = Some (Scalar (PyStr d))
          \<and> e ''dataset'' = Some (Rows [])))
   \<and> (time_aggregation \<in> set (time_aggregation_options self)
        \<and> station_id \<in> set (map fst (stations self))
        \<and> get_json net (endpoint_url self start_date end_date station_id) (api_key self) = Inr response
        \<and> response ''estado'' = Some estado
        \<and> response ''descripcion'' = Some descripcion
        \<and> (estado \<noteq> PyNum 200 \<or> ''datos'' \<notin> dom response) \<longrightarrow>
      (\<exists>e. fst (get_antarctica_data self net start_date end_date station_id time_aggregation) = Inr e
          \<and> e ''status'' = Some (Scalar estado)
          \<and> e ''description'' = Some (Scalar descripcion)
          \<and> e ''dataset'' = Some (Rows [])))"
proof (intro conjI impI)
  assume "time_aggregation \<notin> set (time_aggregation_options self)"
  then show "\<exists>e d. get_antarctica_data self net start_date end_date station_id time_aggregation = (Inr e, [])
          \<and> e ''status'' = Some (Scalar (PyStr ''400''))
          \<and> e ''description'' = Some (Scalar (PyStr d))"
    by (simp add: bad_granularity)
next
  assume "time_aggregation \<in> set (time_aggregation_options self)
        \<and> station_id \<notin> set (map fst (stations self))"
  then show "\<exists>e d. get_antarctica_data self net start_date end_date station_id time_aggregation = (Inr e, [])
          \<and> e ''status'' = Some (Scalar (PyStr ''400''))
          \<and> e ''description'' = Some (Scalar (PyStr d))
          \<and> e ''dataset'' = Some (Rows [])"
    by (simp add: bad_station)
next
  assume a: "time_aggregation \<in> set (time_aggregation_options self)
        \<and> station_id \<in> set (map fst (stations self))
        \<and> get_json net (endpoint_url self start_date end_date station_id) (api_key self) = Inr response
        \<and> response ''estado'' = Some estado
        \<and> response ''descripcion'' = Some descripcion
        \<and> (estado \<noteq> PyNum 200 \<or> ''datos'' \<notin> dom response)"
  have "get_antarctica_data self net start_date end_date station_id time_aggregation =
     (Inr [''status'' \<mapsto> Scalar estado,
           ''description'' \<mapsto> Scalar descripcion,
           ''dataset'' \<mapsto> Rows []], [endpoint_url self start_date end_date station_id])"
    using a upstream_no_data [of time_aggregation self station_id net start_date end_date response estado descripcion]
    by blast
  then show "\<exists>e. fst (get_antarctica_data self net start_date end_date station_id time_aggregation) = Inr e
          \<and> e ''status'' = Some (Scalar estado)
          \<and> e ''description'' = Some (Scalar descripcion)
          \<and> e ''dataset'' = Some (Rows [])"
    by simp
qed

theorem failure_envelope_witness:
  "Some ''Weekly'' \<notin> set (time_aggregation_options (AEMETApi ''key'' utc_zone))
   \<and> (\<exists>e d. get_antarctica_data (AEMETApi ''key'' utc_zone) (serving error_response [])
              ''2022-07-01T00:00:00UTC'' ''2022-08-04T00:00:00UTC'' ''89064'' (Some ''Weekly'') = (Inr e, [])
          \<and> e ''status'' = Some (Scalar (PyStr ''400''))
          \<and> e ''description'' = Some (Scalar (PyStr d)))
   \<and> Some ''Monthly'' \<in> set (time_aggregation_options (AEMETApi ''key'' utc_zone))
   \<and> ''99999'' \<notin> set (map fst (stations (AEMETApi ''key'' utc_zone)))
   \<and> (\<exists>e d. get_antarctica_data (AEMETApi ''key'' utc_zone) (serving error_response [])
              ''2022-07-01T00:00:00UTC'' ''2022-08-04T00:00:00UTC'' ''99999'' (Some ''Monthly'') = (Inr e, [])
          \<and> e ''status'' = Some (Scalar (PyStr ''400''))
          \<and> e ''description'' = Some (Scalar (PyStr d))
          \<and> e ''dataset'' = Some (Rows []))
   \<and> ''89064'' \<in> set (map fst (stations (AEMETApi ''key'' utc_zone)))
   \<and> error_response ''estado'' = Some (PyNum 404)
   \<and> PyNum 404 \<noteq> PyNum 200
   \<and> (\<exists>e. fst (get_antarctica_data (AEMETApi ''key'' utc_zone) (serving error_response [])
              ''2022-07-01T00:00:00UTC'' ''2022-08-04T00:00:00UTC'' ''89064'' (Some ''Monthly'')) = Inr e
          \<and> e ''status'' = Some (Scalar (PyNum 404))
          \<and> e ''description'' = Some (Scalar (PyStr ''No hay datos que satisfagan esos criterios''))
          \<and> e ''dataset'' = Some (Rows []))"
proof -
  let ?self = "AEMETApi ''key'' utc_zone"
  let ?net = "serving error_response []"
  have g1: "Some ''Weekly'' \<notin> set (time_aggregation_options ?self)"
    and g2: "Some ''Monthly'' \<in> set (time_aggregation_options ?self)"
    by (simp_all add: options_AEMETApi)
  have s1: "''99999'' \<notin> set (map fst (stations ?self))"
    and s2: "''89064'' \<in> set (map fst (stations ?self))"
    by (simp_all only: stations_AEMETApi) simp_all
  have r: "get_json ?net (endpoint_url ?self ''2022-07-01T00:00:00UTC'' ''2022-08-04T00:00:00UTC'' ''89064'')
             (api_key ?self) = Inr error_response"
    "error_response ''estado'' = Some (PyNum 404)"
    "error_response ''descripcion'' = Some (PyStr ''No hay datos que satisfagan esos criterios'')"
    "PyNum 404 \<noteq> PyNum 200"
    by (simp_all add: serving_def error_response_def)
  note a = failure_envelope [of "Some ''Weekly''" ?self ?net
      "''2022-07-01T00:00:00UTC''" "''2022-08-04T00:00:00UTC''" "''89064''", THEN conjunct1, rule_format, OF g1]
  note b = failure_envelope [of "Some ''Monthly''" ?self ?net
      "''2022-07-01T00:00:00UTC''" "''2022-08-04T00:00:00UTC''" "''99999''",
      THEN conjunct2, THEN conjunct1, rule_format, OF conjI [OF g2 s1]]
  have c: "\<exists>e. fst (get_antarctica_data ?self ?net
              ''2022-07-01T00:00:00UTC'' ''2022-08-04T00:00:00UTC'' ''89064'' (Some ''Monthly'')) = Inr e
          \<and> e ''status'' = Some (Scalar (PyNum 404))
          \<and> e ''description'' = Some (Scalar (PyStr ''No hay datos que satisfagan esos criterios''))
          \<and> e ''dataset'' = Some (Rows [])"
    using failure_envelope [of "Some ''Monthly''" ?self ?net
      "''2022-07-01T00:00:00UTC''" "''2022-08-04T00:00:00UTC''" "''89064''"
      error_response "PyNum 404" "PyStr ''No hay datos que satisfagan esos criterios''"] g2 s2 r
    by blast
  show ?thesis
    using g1 g2 s1 s2 r(2,4) a b c by (intro conjI)
qed

section \<open>Validation comes before the network\<close>

text \<open>
  Claim C7: for the object that \<open>__init__\<close> builds, a granularity outside
  \<open>None\<close>, \<open>Hourly\<close>, \<open>Daily\<close>, \<open>Monthly\<close>, or a station id that is not a key
  of the catalog, gives a validation failure with status 400 and no network request
  at all (the list of requested URLs is empty). The description of the granularity
  failure lists exactly \<open>None, Hourly, Daily, Monthly\<close>; the description of the
  station failure prints the whole catalog, both ids with their names.
\<close>

theorem validation_before_io:
  "(time_aggregation \<notin> {None, Some ''Hourly'', Some ''Daily'', Some ''Monthly''} \<longrightarrow>
      get_antarctica_data (AEMETApi apikey tz) net start_date end_date station_id time_aggregation =
        (Inr [''status'' \<mapsto> Scalar (PyStr ''400''),
              ''description'' \<mapsto> Scalar (PyStr
                 ''Validation failure. Time aggregation not valid must be one of: None, Hourly, Daily, Monthly''),
              ''data'' \<mapsto> Rows []], []))
   \<and> (time_aggregation \<in> {None, Some ''Hourly'', Some ''Daily'', Some ''Monthly''}
        \<and> station_id \<notin> {''89064'', ''89070''} \<longrightarrow>
      get_antarctica_data (AEMETApi apikey tz) net start_date end_date station_id time_aggregation =
        (Inr [''status'' \<mapsto> Scalar (PyStr ''400''),
              ''description'' \<mapsto> Scalar (PyStr
                 (''Validation failure. Station id must be one of: {'' @
                  [CHR 0x27] @ ''89064'' @ [CHR 0x27] @ '': '' @
                  [CHR 0x27] @ ''Juan Carlos I Meteorological Station'' @ [CHR 0x27] @ '', '' @
                  [CHR 0x27] @ ''89070'' @ [CHR 0x27] @ '': '' @
                  [CHR 0x27] @ ''Gabriel de Castilla Meteorological Station}'' @ [CHR 0x27] @ ''}'')),
              ''dataset'' \<mapsto> Rows []], []))"
proof (intro conjI impI)
  assume "time_aggregation \<notin> {None, Some ''Hourly'', Some ''Daily'', Some ''Monthly''}"
  then have "time_aggregation \<notin> set (time_aggregation_options (AEMETApi apikey tz))"
    by (simp add: options_AEMETApi)
  then show "get_antarctica_data (AEMETApi apikey tz) net start_date end_date station_id time_aggregation =
        (Inr [''status'' \<mapsto> Scalar (PyStr ''400''),
              ''description'' \<mapsto> Scalar (PyStr
                 ''Validation failure. Time aggregation not valid must be one of: None, Hourly, Daily, Monthly''),
              ''data'' \<mapsto> Rows []], [])"
    by (simp add: bad_granularity options_text)
next
  assume a: "time_aggregation \<in> {None, Some ''Hourly'', Some ''Daily'', Some ''Monthly''}
        \<and> station_id \<notin> {''89064'', ''89070''}"
  then have g: "time_aggregation \<in> set (time_aggregation_options (AEMETApi apikey tz))"
    by (simp add: options_AEMETApi)
  from a have s: "station_id \<notin> set (map fst (stations (AEMETApi apikey tz)))"
    by (simp only: stations_AEMETApi not_False_eq_True)
  have "get_antarctica_data (AEMETApi apikey tz) net start_date end_date station_id time_aggregation =
     (Inr [''status'' \<mapsto> Scalar (PyStr ''400''),
              ''description'' \<mapsto> Scalar (PyStr
                 (''Validation failure. Station id must be one of: '' @
                  repr_dict (stations (AEMETApi apikey tz)))),
              ''dataset'' \<mapsto> Rows []], [])"
    by (rule bad_station [OF g s])
  then show "get_antarctica_data (AEMETApi apikey tz) net start_date end_date station_id time_aggregation =
        (Inr [''status'' \<mapsto> Scalar (PyStr ''400''),
              ''description'' \<mapsto> Scalar (PyStr
                 (''Validation failure. Station id must be one of: {'' @
                  [CHR 0x27] @ ''89064'' @ [CHR 0x27] @ '': '' @
                  [CHR 0x27] @ ''Juan Carlos I Meteorological Station'' @ [CHR 0x27] @ '', '' @
                  [CHR 0x27] @ ''89070'' @ [CHR 0x27] @ '': '' @
                  [CHR 0x27] @ ''Gabriel de Castilla Meteorological Station}'' @ [CHR 0x27] @ ''}'')),
              ''dataset'' \<mapsto> Rows []], [])"
    by (simp only: catalog_text) simp
qed

theorem validation_before_io_witness:
  "Some ''Weekly'' \<notin> {None, Some ''Hourly'', Some ''Daily'', Some ''Monthly''}
   \<and> get_antarctica_data (AEMETApi ''key'' utc_zone) (serving empty_ok_response [])
        ''2022-07-01T00:00:00UTC'' ''2022-08-04T00:00:00UTC'' ''89064'' (Some ''Weekly'') =
        (Inr [''status'' \<mapsto> Scalar (PyStr ''400''),
              ''description'' \<mapsto> Scalar (PyStr
                 ''Validation failure. Time aggregation not valid must be one of: None, Hourly, Daily, Monthly''),
              ''data'' \<mapsto> Rows []], [])
   \<and> Some ''Monthly'' \<in> {None, Some ''Hourly'', Some ''Daily'', Some ''Monthly''}
   \<and> ''99999'' \<notin> {''89064'', ''89070''}
   \<and> get_antarctica_data (AEMETApi ''key'' utc_zone) (serving empty_ok_response [])
        ''2022-07-01T00:00:00UTC'' ''2022-08-04T00:00:00UTC'' ''99999'' (Some ''Monthly'') =
        (Inr [''status'' \<mapsto> Scalar (PyStr ''400''),
              ''description'' \<mapsto> Scalar (PyStr
                 (''Validation failure. Station id must be one of: {'' @
                  [CHR 0x27] @ ''89064'' @ [CHR 0x27] @ '': '' @
                  [CHR 0x27] @ ''Juan Carlos I Meteorological Station'' @ [CHR 0x27] @ '', '' @
                  [CHR 0x27] @ ''89070'' @ [CHR 0x27] @ '': '' @
                  [CHR 0x27] @ ''Gabriel de Castilla Meteorological Station}'' @ [CHR 0x27] @ ''}'')),
              ''dataset'' \<mapsto> Rows []], [])"
proof -
  have g1: "Some ''Weekly'' \<notin> {None, Some ''Hourly'', Some ''Daily'', Some ''Monthly''}"
    and g2: "Some ''Monthly'' \<in> {None, Some ''Hourly'', Some ''Daily'', Some ''Monthly''}"
    and s1: "''99999'' \<notin> {''89064'', ''89070''}"
    by simp_all
  note a = validation_before_io [of "Some ''Weekly''" "''key''" utc_zone "serving empty_ok_response []"
      "''2022-07-01T00:00:00UTC''" "''2022-08-04T00:00:00UTC''" "''89064''",
      THEN conjunct1, rule_format, OF g1]
  note b = validation_before_io [of "Some ''Monthly''" "''key''" utc_zone "serving empty_ok_response []"
      "''2022-07-01T00:00:00UTC''" "''2022-08-04T00:00:00UTC''" "''99999''",
      THEN conjunct2, rule_format, OF conjI [OF g2 s1]]
  show ?thesis
    using g1 g2 s1 a b by (intro conjI)
qed

section \<open>Upstream answers without data\<close>

text \<open>
  Claim C8: when the arguments are valid and the metadata response carries an
  \<open>estado\<close> other than 200, the envelope has that \<open>estado\<close> as status, the
  response's \<open>descripcion\<close> as description, both unchanged, and an empty dataset;
  one request was made.
\<close>

theorem upstream_error_passthrough:
  assumes "time_aggregation \<in> set (time_aggregation_options self)"
    and "station_id \<in> set (map fst (stations self))"
    and "get_json net (endpoint_url self start_date end_date station_id) (api_key self) = Inr response"
    and "response ''estado'' = Some estado"
    and "estado \<noteq> PyNum 200"
    and "response ''descripcion'' = Some descripcion"
  shows "get_antarctica_data self net start_date end_date station_id time_aggregation =
     (Inr [''status'' \<mapsto> Scalar estado,
           ''description'' \<mapsto> Scalar descripcion,
           ''dataset'' \<mapsto> Rows []], [endpoint_url self start_date end_date station_id])"
  using assms upstream_no_data [of time_aggregation self station_id net start_date end_date response estado descripcion]
  by blast

theorem upstream_error_passthrough_witness:
  "Some ''Monthly'' \<in> set (time_aggregation_options (AEMETApi ''key'' utc_zone))
   \<and> ''89064'' \<in> set (map fst (stations (AEMETApi ''key'' utc_zone)))
   \<and> get_json (serving error_response [])
        (endpoint_url (AEMETApi ''key'' utc_zone) ''2022-07-01T00:00:00UTC'' ''2022-08-04T00:00:00UTC'' ''89064'')
        (api_key (AEMETApi ''key'' utc_zone)) = Inr error_response
   \<and> error_response ''estado'' = Some (PyNum 404)
   \<and> PyNum 404 \<noteq> PyNum 200
   \<and> error_response ''descripcion'' = Some (PyStr ''No hay datos que satisfagan esos criterios'')
   \<and> get_antarctica_data (AEMETApi ''key'' utc_zone) (serving error_response [])
        ''2022-07-01T00:00:00UTC'' ''2022-08-04T00:00:00UTC'' ''89064'' (Some ''Monthly'') =
     (Inr [''status'' \<mapsto> Scalar (PyNum 404),
           ''description'' \<mapsto> Scalar (PyStr ''No hay datos que satisfagan esos criterios''),
           ''dataset'' \<mapsto> Rows []],
      [endpoint_url (AEMETApi ''key'' utc_zone) ''2022-07-01T00:00:00UTC'' ''2022-08-04T00:00:00UTC'' ''89064''])"
proof -
  let ?self = "AEMETApi ''key'' utc_zone"
  have g: "Some ''Monthly'' \<in> set (time_aggregation_options ?self)"
    by (simp add: options_AEMETApi)
  have s: "''89064'' \<in> set (map fst (stations ?self))"
    by (simp only: stations_AEMETApi) simp
  have r: "get_json (serving error_response [])
        (endpoint_url ?self ''2022-07-01T00:00:00UTC'' ''2022-08-04T00:00:00UTC'' ''89064'')
        (api_key ?self) = Inr error_response"
    by (simp add: serving_def)
  have e: "error_response ''estado'' = Some (PyNum 404)"
    and n: "PyNum 404 \<noteq> PyNum 200"
    and d: "error_response ''descripcion'' = Some (PyStr ''No hay datos que satisfagan esos criterios'')"
    by (simp_all add: error_response_def)
  show ?thesis
    using g s r e n d upstream_error_passthrough [OF g s r e n d] by (intro conjI)
qed

text \<open>
  Claim C10: when the arguments are valid and the metadata response has \<open>estado\<close>
  200 but no \<open>datos\<close> key, the call does not fail: it returns an envelope with
  status 200, the response's \<open>descripcion\<close> as description and an empty dataset,
  after the one metadata request; no dataset was fetched and nothing was aggregated.
\<close>

theorem ok_without_datos:
  assumes "time_aggregation \<in> set (time_aggregation_options self)"
    and "station_id \<in> set (map fst (stations self))"
    and "get_json net (endpoint_url self start_date end_date station_id) (api_key self) = Inr response"
    and "response ''estado'' = Some (PyNum 200)"
    and "''datos'' \<notin> dom response"
    and "response ''descripcion'' = Some descripcion"
  shows "get_antarctica_data self net start_date end_date station_id time_aggregation =
     (Inr [''status'' \<mapsto> Scalar (PyNum 200),
           ''description'' \<mapsto> Scalar descripcion,
           ''dataset'' \<mapsto> Rows []], [endpoint_url self start_date end_date station_id])"
  using assms upstream_no_data [of time_aggregation self station_id net start_date end_date response "PyNum 200" descripcion]
  by blast

theorem ok_without_datos_witness:
  "Some ''Monthly'' \<in> set (time_aggregation_options (AEMETApi ''key'' utc_zone))
   \<and> ''89064'' \<in> set (map fst (stations (AEMETApi ''key'' utc_zone)))
   \<and> get_json (serving empty_ok_response [])
        (endpoint_url (AEMETApi ''key'' utc_zone) ''2022-07-01T00:00:00UTC'' ''2022-08-04T00:00:00UTC'' ''89064'')
        (api_key (AEMETApi ''key'' utc_zone)) = Inr empty_ok_response
   \<and> empty_ok_response ''estado'' = Some (PyNum 200)
   \<and> ''datos'' \<notin> dom empty_ok_response
   \<and> empty_ok_response ''descripcion'' = Some (PyStr ''exito'')
   \<and> get_antarctica_data (AEMETApi ''key'' utc_zone) (serving empty_ok_response [])
        ''2022-07-01T00:00:00UTC'' ''2022-08-04T00:00:00UTC'' ''89064'' (Some ''Monthly'') =
     (Inr [''status'' \<mapsto> Scalar (PyNum 200),
           ''description'' \<mapsto> Scalar (PyStr ''exito''),
           ''dataset'' \<mapsto> Rows []],
      [endpoint_url (AEMETApi ''key'' utc_zone) ''2022-07-01T00:00:00UTC'' ''2022-08-04T00:00:00UTC'' ''89064''])"
proof -
  let ?self = "AEMETApi ''key'' utc_zone"
  have g: "Some ''Monthly'' \<in> set (time_aggregation_options ?self)"
    by (simp add: options_AEMETApi)
  have s: "''89064'' \<in> set (map fst (stations ?self))"
    by (simp only: stations_AEMETApi) simp
  have r: "get_json (serving empty_ok_response [])
        (endpoint_url ?self ''2022-07-01T00:00:00UTC'' ''2022-08-04T00:00:00UTC'' ''89064'')
        (api_key ?self) = Inr empty_ok_response"
    by (simp add: serving_def)
  have e: "empty_ok_response ''estado'' = Some (PyNum 200)"
    and n: "''datos'' \<notin> dom empty_ok_response"
    and d: "empty_ok_response ''descripcion'' = Some (PyStr ''exito'')"
    by (simp_all add: empty_ok_response_def)
  show ?thesis
    using g s r e n d ok_without_datos [OF g s r e n d] by (intro conjI)
qed

section \<open>\<open>sort_data\<close> is a stable sort by the effective key\<close>

lemma insort_py_eq:
  fixes k :: "pyval \<times> 'a \<Rightarrow> 'o::linorder"
  assumes "\<forall>q\<in>set zs. py_lt (fst q) (fst p) = Inr (k q < k p)"
  shows "insort_py p zs = Inr (insort_key k p zs)"
  using assms
proof (induction zs)
  case Nil
  then show ?case by simp
next
  case (Cons q zs)
  show ?case
  proof (cases "k q < k p")
    case True
    then have "\<not> k p \<le> k q" by simp
    with True Cons show ?thesis by simp
  next
    case False
    then have "k p \<le> k q" by simp
    with False Cons show ?thesis by simp
  qed
qed

lemma sorted_py_eq:
  fixes k :: "pyval \<times> 'a \<Rightarrow> 'o::linorder"
  assumes "\<forall>p\<in>set ps. \<forall>q\<in>set ps. py_lt (fst q) (fst p) = Inr (k q < k p)"
  shows "sorted_py ps = Inr (sort_key k ps)"
  using assms
proof (induction ps)
  case Nil
  then show ?case by simp
next
  case (Cons p ps)
  then have "sorted_py ps = Inr (sort_key k ps)" by simp
  moreover have "insort_py p (sort_key k ps) = Inr (insort_key k p (sort_key k ps))"
    using Cons.prems by (intro insort_py_eq) simp
  ultimately show ?case by (simp add: sort_key_def)
qed

lemma keys_of_eq:
  assumes "\<forall>x\<in>set data. effective_key x = Inr (g x)"
  shows "keys_of data = Inr (map (\<lambda>x. (g x, x)) data)"
  using assms by (induction data) simp_all

lemma map_snd_insort_key:
  "map snd (insort_key (\<lambda>q. f (snd q)) p zs) = insort_key f (snd p) (map snd zs)"
  by (induction zs) simp_all

lemma map_snd_sort_key:
  "map snd (sort_key (\<lambda>q. f (snd q)) (map (\<lambda>x. (g x, x)) data)) = sort_key f data"
  by (induction data) (simp_all add: sort_key_def map_snd_insort_key)

lemma sort_data_eq:
  fixes f :: "pydict \<Rightarrow> 'o::linorder"
  assumes emb: "\<And>a b. py_lt (emb a) (emb b) = Inr (a < b)"
    and keys: "\<forall>x\<in>set data. effective_key x = Inr (emb (f x))"
  shows "sort_data data = Inr (sort_key f data)"
proof -
  let ?ps = "map (\<lambda>x. (emb (f x), x)) data"
  have k: "keys_of data = Inr ?ps"
    using keys by (rule keys_of_eq)
  have "sorted_py ?ps = Inr (sort_key (\<lambda>q. f (snd q)) ?ps)"
    by (rule sorted_py_eq) (auto simp add: emb)
  then show ?thesis
    using k map_snd_sort_key [of f "\<lambda>x. emb (f x)" data] by (simp add: sort_data_def)
qed


lemma key_le_iff:
  fixes f :: "pydict \<Rightarrow> 'o::linorder"
  assumes emb: "\<And>a b. py_lt (emb a) (emb b) = Inr (a < b)"
    and "effective_key x = Inr (emb (f x))" and "effective_key y = Inr (emb (f y))"
  shows "key_le x y = (f x \<le> f y)"
  using assms by (auto simp add: key_le_def)

lemma sort_data_generic:
  fixes f :: "pydict \<Rightarrow> 'o::linorder"
  assumes emb: "\<And>a b. py_lt (emb a) (emb b) = Inr (a < b)"
    and keys: "\<forall>x\<in>set data. effective_key x = Inr (emb (f x))"
  shows "sort_data data = Inr (sort_key f data)
    \<and> sorted_wrt key_le (sort_key f data)
    \<and> mset (sort_key f data) = mset data"
proof -
  have "sorted (map f (sort_key f data))"
    by (rule sorted_sort_key)
  then have "sorted_wrt (\<lambda>x y. f x \<le> f y) (sort_key f data)"
    by (simp add: sorted_map)
  then have "sorted_wrt key_le (sort_key f data)"
  proof (rule sorted_wrt_mono_rel [rotated])
    fix x y
    assume "x \<in> set (sort_key f data)" "y \<in> set (sort_key f data)" "f x \<le> f y"
    then show "key_le x y"
      using keys key_le_iff [of emb x f y, OF emb] by simp
  qed
  then show ?thesis
    using sort_data_eq [of emb data f, OF emb keys] by simp
qed








section \<open>One iteration of the loop\<close>

lemma merge_item_shape:
  assumes "merge_item s item = Inr s'"
  shows "\<exists>i t p v. aggregated_item s = Some i
     \<and> s' = s\<lparr>aggregated_data := (aggregated_data s)[i := (aggregated_data s ! i)
                    \<lparr>temperature := t, pressure := p, speed := v\<rparr>]\<rparr>"
  using assms by (auto simp add: merge_item_def split: option.splits sum.splits)

lemma new_item_shape:
  assumes "new_item self s item time = Inr s'"
  shows "\<exists>n t p v. item ''nombre'' = Some n \<and> item ''temp'' = Some t
     \<and> item ''pres'' = Some p \<and> item ''vel'' = Some v
     \<and> s' = \<lparr>aggregated_data = aggregated_data s @
               [\<lparr>station = n, utc_datetime = time, datetime = local_timezone self time,
                 temperature = t, pressure = p, speed = v\<rparr>],
             aggregated_item = Some (length (aggregated_data s))\<rparr>"
  using assms by (auto simp add: new_item_def getitem_def split: option.splits sum.splits)

lemma merge_item_length:
  "merge_item s item = Inr s' \<Longrightarrow> length (aggregated_data s') = length (aggregated_data s)"
  by (drule merge_item_shape) auto

lemma new_item_length:
  "new_item self s item time = Inr s' \<Longrightarrow>
   length (aggregated_data s') = Suc (length (aggregated_data s))"
  by (drule new_item_shape) auto

lemma aggregate_truthy: "aggregate g last_time time \<Longrightarrow> truthy g"
  by (auto simp add: aggregate_def truthy_def)

lemma loop_body_branch:
  assumes "parsed_time item = Inr time"
  shows "loop_body self g s item =
     (if aggregated_data s \<noteq> [] \<and> aggregate g (utc_datetime (last (aggregated_data s))) time
      then merge_item s item else new_item self s item time)"
  using assms aggregate_truthy [of g "utc_datetime (last (aggregated_data s))" time]
  by (auto simp add: loop_body_def)

lemma loop_body_cases:
  assumes "loop_body self g s item = Inr s'"
  obtains (merged) time where "parsed_time item = Inr time" "aggregated_data s \<noteq> []"
      "aggregate g (utc_datetime (last (aggregated_data s))) time" "merge_item s item = Inr s'"
  | (appended) time where "parsed_time item = Inr time" "new_item self s item time = Inr s'"
proof (cases "parsed_time item")
  case (Inl e)
  with assms show ?thesis by (simp add: loop_body_def)
next
  case (Inr time)
  with assms show ?thesis
    using merged [of time] appended [of time]
    by (auto simp add: loop_body_branch split: if_splits)
qed

lemma last_is_current_step:
  assumes "last_is_current s" and "loop_body self g s item = Inr s'"
  shows "last_is_current s'"
  using assms(2)
proof (cases rule: loop_body_cases)
  case (merged time)
  from merge_item_shape [OF merged(4)] assms(1) show ?thesis
    by (auto simp add: last_is_current_def)
next
  case (appended time)
  from new_item_shape [OF appended(2)] show ?thesis
    by (auto simp add: last_is_current_def)
qed

lemma last_is_current_loop:
  assumes "last_is_current s" and "loop self g s items = Inr s'"
  shows "last_is_current s'"
  using assms
  by (induction items arbitrary: s) (auto split: sum.splits dest: last_is_current_step)

lemma list_update_last: "xs \<noteq> [] \<Longrightarrow> xs[length xs - 1 := y] = butlast xs @ [y]"
  by (cases xs rule: rev_cases) simp_all

lemma merge_item_last:
  assumes "last_is_current s" and "merge_item s item = Inr s'"
  shows "\<exists>t p v. aggregated_data s' =
      butlast (aggregated_data s) @ [(last (aggregated_data s))\<lparr>temperature := t, pressure := p, speed := v\<rparr>]"
proof -
  from merge_item_shape [OF assms(2)] obtain i t p v where i: "aggregated_item s = Some i"
    and s': "s' = s\<lparr>aggregated_data := (aggregated_data s)[i := (aggregated_data s ! i)
                    \<lparr>temperature := t, pressure := p, speed := v\<rparr>]\<rparr>"
    by blast
  from i assms(1) have ne: "aggregated_data s \<noteq> []" and l: "i = length (aggregated_data s) - 1"
    by (simp_all add: last_is_current_def)
  from ne l have "aggregated_data s ! i = last (aggregated_data s)"
    by (simp add: last_conv_nth)
  with s' l have "aggregated_data s' = (aggregated_data s)[length (aggregated_data s) - 1 :=
      (last (aggregated_data s))\<lparr>temperature := t, pressure := p, speed := v\<rparr>]"
    by simp
  also have "\<dots> = butlast (aggregated_data s) @
      [(last (aggregated_data s))\<lparr>temperature := t, pressure := p, speed := v\<rparr>]"
    using ne by (rule list_update_last)
  finally show ?thesis by blast
qed

section \<open>When a record is merged\<close>

text \<open>
  Claim C1: when the output already has an entry, an iteration merges the record
  into the last bucket if and only if the granularity is \<open>Hourly\<close> and the hour of
  day of the last entry's UTC timestamp equals that of the record's parsed
  timestamp, or it is \<open>Daily\<close> and the days of the month are equal, or it is
  \<open>Monthly\<close> and the months of the year are equal; only that one component is
  compared. Otherwise the iteration appends a new bucket. A merge rewrites the
  last entry and keeps the length; an append makes the output one longer. (For the
  granularity \<open>None\<close> the condition is false, so the statement needs no
  hypothesis on it.)
\<close>

theorem merge_iff_component_equal:
  assumes "last_is_current s"
    and "aggregated_data s \<noteq> []"
    and "parsed_time item = Inr time"
  shows "loop_body self time_aggregation s item =
      (if time_aggregation = Some ''Hourly''
            \<and> hour (utc_datetime (last (aggregated_data s))) = hour time
          \<or> time_aggregation = Some ''Daily''
            \<and> day (utc_datetime (last (aggregated_data s))) = day time
          \<or> time_aggregation = Some ''Monthly''
            \<and> month (utc_datetime (last (aggregated_data s))) = month time
       then merge_item s item
       else new_item self s item time)
    \<and> (\<forall>s'. merge_item s item = Inr s' \<longrightarrow>
          (\<exists>t p v. aggregated_data s' = butlast (aggregated_data s) @
              [(last (aggregated_data s))\<lparr>temperature := t, pressure := p, speed := v\<rparr>]))
    \<and> (\<forall>s'. new_item self s item time = Inr s' \<longrightarrow>
          (\<exists>b. aggregated_data s' = aggregated_data s @ [b]))"
proof (intro conjI allI impI)
  show "loop_body self time_aggregation s item =
      (if time_aggregation = Some ''Hourly''
            \<and> hour (utc_datetime (last (aggregated_data s))) = hour time
          \<or> time_aggregation = Some ''Daily''
            \<and> day (utc_datetime (last (aggregated_data s))) = day time
          \<or> time_aggregation = Some ''Monthly''
            \<and> month (utc_datetime (last (aggregated_data s))) = month time
       then merge_item s item
       else new_item self s item time)"
    using assms(2,3) by (simp add: loop_body_branch aggregate_def)
next
  fix s' assume "merge_item s item = Inr s'"
  then show "\<exists>t p v. aggregated_data s' = butlast (aggregated_data s) @
              [(last (aggregated_data s))\<lparr>temperature := t, pressure := p, speed := v\<rparr>]"
    using assms(1) by (rule merge_item_last [rotated])
next
  fix s' assume "new_item self s item time = Inr s'"
  from new_item_shape [OF this] show "\<exists>b. aggregated_data s' = aggregated_data s @ [b]"
    by auto
qed


section \<open>The running average\<close>



lemma loop_body_frame:
  assumes "last_is_current s" and "loop_body self g s item = Inr s'"
  shows "length (aggregated_data s) \<le> length (aggregated_data s')
    \<and> (\<forall>j<length (aggregated_data s).
          station (aggregated_data s' ! j) = station (aggregated_data s ! j)
        \<and> utc_datetime (aggregated_data s' ! j) = utc_datetime (aggregated_data s ! j)
        \<and> datetime (aggregated_data s' ! j) = datetime (aggregated_data s ! j)
        \<and> (Suc j < length (aggregated_data s) \<longrightarrow> aggregated_data s' ! j = aggregated_data s ! j))
    \<and> (\<forall>j. length (aggregated_data s) \<le> j \<and> j < length (aggregated_data s') \<longrightarrow>
          datetime (aggregated_data s' ! j) = local_timezone self (utc_datetime (aggregated_data s' ! j))
        \<and> parsed_time item = Inr (utc_datetime (aggregated_data s' ! j)))"
  using assms(2)
proof (cases rule: loop_body_cases)
  case (merged time)
  from merge_item_last [OF assms(1) merged(4)] obtain t p v where
    s': "aggregated_data s' = butlast (aggregated_data s) @
      [(last (aggregated_data s))\<lparr>temperature := t, pressure := p, speed := v\<rparr>]"
    by blast
  from merged(2) obtain ys y where xs: "aggregated_data s = ys @ [y]"
    by (cases "aggregated_data s" rule: rev_cases) auto
  show ?thesis
    by (auto simp add: s' xs nth_append)
next
  case (appended time)
  from new_item_shape [OF appended(2)] show ?thesis
    using appended(1) by (auto simp add: nth_append)
qed

section \<open>What a merge leaves alone\<close>

text \<open>
  Claim C9: through any number of iterations, a bucket that is in the output keeps
  its station name, its UTC timestamp and its local timestamp, and every bucket
  but the last one is left exactly as it is; so a merge changes nothing but
  temperature, pressure and speed of the last bucket. A bucket that the iterations
  add has the parsed timestamp of one of the processed records (the one that
  opened it) as UTC timestamp, and that timestamp converted to the configured time
  zone as local timestamp.
\<close>

theorem merge_frame:
  assumes "last_is_current s" and "loop self g s items = Inr s'"
  shows "length (aggregated_data s) \<le> length (aggregated_data s')
    \<and> (\<forall>j<length (aggregated_data s).
          station (aggregated_data s' ! j) = station (aggregated_data s ! j)
        \<and> utc_datetime (aggregated_data s' ! j) = utc_datetime (aggregated_data s ! j)
        \<and> datetime (aggregated_data s' ! j) = datetime (aggregated_data s ! j)
        \<and> (Suc j < length (aggregated_data s) \<longrightarrow> aggregated_data s' ! j = aggregated_data s ! j))
    \<and> (\<forall>j. length (aggregated_data s) \<le> j \<and> j < length (aggregated_data s') \<longrightarrow>
          datetime (aggregated_data s' ! j) = local_timezone self (utc_datetime (aggregated_data s' ! j))
        \<and> (\<exists>r\<in>set items. parsed_time r = Inr (utc_datetime (aggregated_data s' ! j))))"
  using assms
proof (induction items arbitrary: s)
  case Nil
  then show ?case by simp
next
  case (Cons r rs)
  from Cons.prems(2) obtain s1 where step: "loop_body self g s r = Inr s1"
    and rest: "loop self g s1 rs = Inr s'"
    by (auto split: sum.splits)
  note f1 = loop_body_frame [OF Cons.prems(1) step]
  note f2 = Cons.IH [OF last_is_current_step [OF Cons.prems(1) step] rest]
  let ?n = "length (aggregated_data s)"
  let ?n1 = "length (aggregated_data s1)"
  from f1 f2 have len: "?n \<le> ?n1" "?n1 \<le> length (aggregated_data s')"
    by simp_all
  have old: "station (aggregated_data s' ! j) = station (aggregated_data s ! j)
        \<and> utc_datetime (aggregated_data s' ! j) = utc_datetime (aggregated_data s ! j)
        \<and> datetime (aggregated_data s' ! j) = datetime (aggregated_data s ! j)
        \<and> (Suc j < ?n \<longrightarrow> aggregated_data s' ! j = aggregated_data s ! j)"
    if "j < ?n" for j
  proof -
    from that len have j1: "j < ?n1" by simp
    from f2 j1 have a: "station (aggregated_data s' ! j) = station (aggregated_data s1 ! j)
        \<and> utc_datetime (aggregated_data s' ! j) = utc_datetime (aggregated_data s1 ! j)
        \<and> datetime (aggregated_data s' ! j) = datetime (aggregated_data s1 ! j)
        \<and> (Suc j < ?n1 \<longrightarrow> aggregated_data s' ! j = aggregated_data s1 ! j)"
      by blast
    from f1 that have b: "station (aggregated_data s1 ! j) = station (aggregated_data s ! j)
        \<and> utc_datetime (aggregated_data s1 ! j) = utc_datetime (aggregated_data s ! j)
        \<and> datetime (aggregated_data s1 ! j) = datetime (aggregated_data s ! j)
        \<and> (Suc j < ?n \<longrightarrow> aggregated_data s1 ! j = aggregated_data s ! j)"
      by blast
    from a b len show ?thesis by auto
  qed
  have new: "datetime (aggregated_data s' ! j) = local_timezone self (utc_datetime (aggregated_data s' ! j))
        \<and> (\<exists>x\<in>set (r # rs). parsed_time x = Inr (utc_datetime (aggregated_data s' ! j)))"
    if "?n \<le> j" "j < length (aggregated_data s')" for j
  proof (cases "j < ?n1")
    case True
    from f2 True have a: "utc_datetime (aggregated_data s' ! j) = utc_datetime (aggregated_data s1 ! j)
        \<and> datetime (aggregated_data s' ! j) = datetime (aggregated_data s1 ! j)"
      by blast
    from f1 that(1) True have "datetime (aggregated_data s1 ! j) = local_timezone self (utc_datetime (aggregated_data s1 ! j))
        \<and> parsed_time r = Inr (utc_datetime (aggregated_data s1 ! j))"
      by blast
    with a show ?thesis by simp
  next
    case False
    with f2 that(2) have "datetime (aggregated_data s' ! j) = local_timezone self (utc_datetime (aggregated_data s' ! j))
        \<and> (\<exists>x\<in>set rs. parsed_time x = Inr (utc_datetime (aggregated_data s' ! j)))"
      by (simp add: not_less)
    then show ?thesis by auto
  qed
  from len old new show ?case
    by (intro conjI allI impI) auto
qed


lemmas eval_strptime =
  strptime_def split_on_def is_digit_def in_range_def int_of_digits_def int_of_day_def
  digit_val_def make_datetime_def days_in_month_def is_leap_def

lemmas eval_record = parsed_time_def getitem_def raw_observation_def





lemma aggregate_data_fetch:
  "get_dataset net url = Inr data \<Longrightarrow>
   aggregate_data self net (PyStr url) g = (aggregate_rows self data g, [url])"
  by (simp add: aggregate_data_def)

section \<open>No aggregation\<close>



section \<open>The examples\<close>

lemma example_state_current: "last_is_current example_state"
  by (simp add: last_is_current_def example_state_def)

theorem merge_iff_component_equal_witness:
  "last_is_current example_state
   \<and> aggregated_data example_state \<noteq> []
   \<and> parsed_time (raw_observation ''2022-07-31T14:30:00'' ''JCI'' 20 1002 5)
       = Inr \<lparr>year = 2022, month = 7, day = 31, hour = 14, minute = 30, second = 0\<rparr>
   \<and> loop_body (AEMETApi ''key'' utc_zone) (Some ''Hourly'') example_state
         (raw_observation ''2022-07-31T14:30:00'' ''JCI'' 20 1002 5)
       = merge_item example_state (raw_observation ''2022-07-31T14:30:00'' ''JCI'' 20 1002 5)
   \<and> loop_body (AEMETApi ''key'' utc_zone) (Some ''Daily'') example_state
         (raw_observation ''2022-07-31T14:30:00'' ''JCI'' 20 1002 5)
       = new_item (AEMETApi ''key'' utc_zone) example_state
           (raw_observation ''2022-07-31T14:30:00'' ''JCI'' 20 1002 5)
           \<lparr>year = 2022, month = 7, day = 31, hour = 14, minute = 30, second = 0\<rparr>"
proof -
  have ne: "aggregated_data example_state \<noteq> []"
    by (simp add: example_state_def)
  have pt: "parsed_time (raw_observation ''2022-07-31T14:30:00'' ''JCI'' 20 1002 5)
       = Inr \<lparr>year = 2022, month = 7, day = 31, hour = 14, minute = 30, second = 0\<rparr>"
    by (simp add: eval_record eval_strptime)
  have l: "utc_datetime (last (aggregated_data example_state))
       = \<lparr>year = 2022, month = 7, day = 1, hour = 14, minute = 0, second = 0\<rparr>"
    by (simp add: example_state_def)
  from merge_iff_component_equal [OF example_state_current ne pt,
      of "AEMETApi ''key'' utc_zone" "Some ''Hourly''"]
  have h: "loop_body (AEMETApi ''key'' utc_zone) (Some ''Hourly'') example_state
         (raw_observation ''2022-07-31T14:30:00'' ''JCI'' 20 1002 5)
       = merge_item example_state (raw_observation ''2022-07-31T14:30:00'' ''JCI'' 20 1002 5)"
    by (simp add: l)
  from merge_iff_component_equal [OF example_state_current ne pt,
      of "AEMETApi ''key'' utc_zone" "Some ''Daily''"]
  have d: "loop_body (AEMETApi ''key'' utc_zone) (Some ''Daily'') example_state
         (raw_observation ''2022-07-31T14:30:00'' ''JCI'' 20 1002 5)
       = new_item (AEMETApi ''key'' utc_zone) example_state
           (raw_observation ''2022-07-31T14:30:00'' ''JCI'' 20 1002 5)
           \<lparr>year = 2022, month = 7, day = 31, hour = 14, minute = 30, second = 0\<rparr>"
    by (simp add: l)
  from example_state_current ne pt h d show ?thesis
    by (intro conjI)
qed


lemma three_colliding_records:
  "aggregate_data (AEMETApi ''key'' utc_zone)
     (serving empty_ok_response
        [raw_observation ''2022-07-01T14:00:00'' ''JCI'' 10 1000 3,
         raw_observation ''2022-07-01T15:00:00'' ''JCI'' 20 1002 5,
         raw_observation ''2022-07-01T16:00:00'' ''JCI'' 30 1004 7])
     (PyStr ''https://opendata.aemet.es/opendata/sh/0123'') (Some ''Daily'')
   = (Inr [\<lparr>station = PyStr ''JCI'',
            utc_datetime = \<lparr>year = 2022, month = 7, day = 1, hour = 14, minute = 0, second = 0\<rparr>,
            datetime = (\<lparr>year = 2022, month = 7, day = 1, hour = 14, minute = 0, second = 0\<rparr>, 0),
            temperature = PyNum (45 / 2), pressure = PyNum (2005 / 2), speed = PyNum (11 / 2)\<rparr>],
      [''https://opendata.aemet.es/opendata/sh/0123''])"
  by (simp add: aggregate_data_def serving_def aggregate_rows_def sort_data_def effective_key_def
      loop_body_def truthy_def aggregate_def merge_item_def new_item_def AEMETApi_def utc_zone_def
      eval_record eval_strptime)


theorem merge_frame_witness:
  "last_is_current example_state
   \<and> loop (AEMETApi ''key'' utc_zone) (Some ''Daily'') example_state
        [raw_observation ''2022-07-01T15:00:00'' ''JCI'' 20 1002 5,
         raw_observation ''2022-07-02T09:00:00'' ''JCI'' 30 1004 7] = Inr example_state_after
   \<and> length (aggregated_data example_state) \<le> length (aggregated_data example_state_after)
   \<and> station (aggregated_data example_state_after ! 0) = station (aggregated_data example_state ! 0)
   \<and> utc_datetime (aggregated_data example_state_after ! 0)
        = utc_datetime (aggregated_data example_state ! 0)
   \<and> datetime (aggregated_data example_state_after ! 0)
        = datetime (aggregated_data example_state ! 0)
   \<and> datetime (aggregated_data example_state_after ! 1)
        = local_timezone (AEMETApi ''key'' utc_zone)
            (utc_datetime (aggregated_data example_state_after ! 1))
   \<and> (\<exists>r\<in>set [raw_observation ''2022-07-01T15:00:00'' ''JCI'' 20 1002 5,
                 raw_observation ''2022-07-02T09:00:00'' ''JCI'' 30 1004 7].
         parsed_time r = Inr (utc_datetime (aggregated_data example_state_after ! 1)))"
proof -
  have l: "loop (AEMETApi ''key'' utc_zone) (Some ''Daily'') example_state
        [raw_observation ''2022-07-01T15:00:00'' ''JCI'' 20 1002 5,
         raw_observation ''2022-07-02T09:00:00'' ''JCI'' 30 1004 7] = Inr example_state_after"
    by (simp add: example_state_def example_state_after_def loop_body_def truthy_def
        aggregate_def merge_item_def new_item_def AEMETApi_def utc_zone_def
        eval_record eval_strptime)
  have n0: "0 < length (aggregated_data example_state)"
    and n1: "length (aggregated_data example_state) \<le> 1
        \<and> 1 < length (aggregated_data example_state_after)"
    by (simp_all add: example_state_def example_state_after_def)
  note f = merge_frame [OF example_state_current l]
  from f have len: "length (aggregated_data example_state) \<le> length (aggregated_data example_state_after)"
    by (rule conjunct1)
  from f n0 have old: "station (aggregated_data example_state_after ! 0) = station (aggregated_data example_state ! 0)
        \<and> utc_datetime (aggregated_data example_state_after ! 0) = utc_datetime (aggregated_data example_state ! 0)
        \<and> datetime (aggregated_data example_state_after ! 0) = datetime (aggregated_data example_state ! 0)"
    by blast
  from f n1 have new: "datetime (aggregated_data example_state_after ! 1)
        = local_timezone (AEMETApi ''key'' utc_zone)
            (utc_datetime (aggregated_data example_state_after ! 1))
      \<and> (\<exists>r\<in>set [raw_observation ''2022-07-01T15:00:00'' ''JCI'' 20 1002 5,
                 raw_observation ''2022-07-02T09:00:00'' ''JCI'' 30 1004 7].
         parsed_time r = Inr (utc_datetime (aggregated_data example_state_after ! 1)))"
    by blast
  from example_state_current l len old new show ?thesis
    by (intro conjI) blast+
qed


section \<open>Timestamps in the documented format\<close>

text \<open>
  On zero-padded timestamps the order of the strings is the order of the times they
  denote.
\<close>

lemma is_digit_bounds: "is_digit c \<longleftrightarrow> 48 \<le> (of_char c :: nat) \<and> (of_char c :: nat) \<le> 57"
  by (simp add: is_digit_def less_eq_char_def)

lemma is_digit_not_separator:
  assumes "is_digit c"
  shows "c \<noteq> CHR ''-''" "c \<noteq> CHR ''T''" "c \<noteq> CHR ''t''" "c \<noteq> CHR '':''" "c \<noteq> CHR '' ''"
  using assms by (auto simp add: is_digit_bounds)

lemma digit_val_le: "is_digit c \<Longrightarrow> digit_val c \<le> 9"
  unfolding is_digit_bounds digit_val_def by arith

lemma digit_less_iff:
  "is_digit c \<Longrightarrow> is_digit d \<Longrightarrow> c < d \<longleftrightarrow> digit_val c < digit_val d"
  unfolding is_digit_bounds digit_val_def less_char_def by arith

lemma digit_eq_iff:
  "is_digit c \<Longrightarrow> is_digit d \<Longrightarrow> c = d \<longleftrightarrow> digit_val c = digit_val d"
proof -
  assume "is_digit c" "is_digit d"
  then have "digit_val c = digit_val d \<longleftrightarrow> (of_char c :: nat) = of_char d"
    unfolding is_digit_bounds digit_val_def by arith
  then show ?thesis by (simp add: of_char_eq_iff)
qed

lemma two_digits_le:
  assumes "is_digit a" "is_digit b" "is_digit a'" "is_digit b'"
  shows "a # b # x \<le> a' # b' # y \<longleftrightarrow>
     int_of_digits [a, b] < int_of_digits [a', b']
     \<or> int_of_digits [a, b] = int_of_digits [a', b'] \<and> x \<le> y"
proof -
  have "a # b # x \<le> a' # b' # y \<longleftrightarrow>
     digit_val a < digit_val a' \<or> digit_val a = digit_val a' \<and>
       (digit_val b < digit_val b' \<or> digit_val b = digit_val b' \<and> x \<le> y)"
    using assms by (simp add: digit_less_iff digit_eq_iff)
  moreover have "digit_val a \<le> 9" "digit_val b \<le> 9" "digit_val a' \<le> 9" "digit_val b' \<le> 9"
    using assms by (simp_all add: digit_val_le)
  ultimately show ?thesis
    by (auto simp add: int_of_digits_def)
qed

lemma two_digits_bound:
  "is_digit a \<Longrightarrow> is_digit b \<Longrightarrow> int_of_digits [a, b] \<le> 99"
  using digit_val_le [of a] digit_val_le [of b] by (simp add: int_of_digits_def)

lemma four_digits_split:
  "int_of_digits [a, b, c, d] = 100 * int_of_digits [a, b] + int_of_digits [c, d]"
  by (simp add: int_of_digits_def)


lemma strptime_canonical:
  assumes "list_all is_digit [y1, y2, y3, y4, m1, m2, d1, d2, h1, h2, n1, n2, s1, s2]"
  shows "strptime [y1, y2, y3, y4, CHR ''-'', m1, m2, CHR ''-'', d1, d2, CHR ''T'',
                   h1, h2, CHR '':'', n1, n2, CHR '':'', s1, s2] =
     (if re_m [m1, m2] \<and> re_d [d1, d2] \<and> re_H [h1, h2] \<and> re_M [n1, n2] \<and> re_S [s1, s2]
      then make_datetime (int_of_digits [y1, y2, y3, y4]) (int_of_digits [m1, m2])
             (int_of_digits [d1, d2]) (int_of_digits [h1, h2]) (int_of_digits [n1, n2])
             (int_of_digits [s1, s2])
      else Inl ValueError)"
  using assms
  by (simp add: strptime_def split_on_def int_of_day_def is_digit_not_separator
      del: re_m.simps re_d.simps re_H.simps re_M.simps re_S.simps)

lemma make_datetime_chron:
  "make_datetime y m d H M S = Inr t \<Longrightarrow> chron t = (y, m, d, H, M, S)"
  by (auto simp add: make_datetime_def chron_def split: if_splits)

lemma strptime_canonical_chron:
  assumes "list_all is_digit [y1, y2, y3, y4, m1, m2, d1, d2, h1, h2, n1, n2, s1, s2]"
    and "strptime [y1, y2, y3, y4, CHR ''-'', m1, m2, CHR ''-'', d1, d2, CHR ''T'',
                   h1, h2, CHR '':'', n1, n2, CHR '':'', s1, s2] = Inr t"
  shows "chron t = (int_of_digits [y1, y2, y3, y4], int_of_digits [m1, m2],
             int_of_digits [d1, d2], int_of_digits [h1, h2], int_of_digits [n1, n2],
             int_of_digits [s1, s2])"
  using assms(2) unfolding strptime_canonical [OF assms(1)]
  by (auto split: if_splits dest: make_datetime_chron)

lemma canonical_le:
  assumes a: "list_all is_digit [y1, y2, y3, y4, m1, m2, d1, d2, h1, h2, n1, n2, s1, s2]"
    and b: "list_all is_digit [y1', y2', y3', y4', m1', m2', d1', d2', h1', h2', n1', n2', s1', s2']"
  shows "[y1, y2, y3, y4, CHR ''-'', m1, m2, CHR ''-'', d1, d2, CHR ''T'',
                   h1, h2, CHR '':'', n1, n2, CHR '':'', s1, s2]
       \<le> [y1', y2', y3', y4', CHR ''-'', m1', m2', CHR ''-'', d1', d2', CHR ''T'',
                   h1', h2', CHR '':'', n1', n2', CHR '':'', s1', s2']
    \<longleftrightarrow>
      (int_of_digits [y1, y2, y3, y4], int_of_digits [m1, m2],
             int_of_digits [d1, d2], int_of_digits [h1, h2], int_of_digits [n1, n2],
             int_of_digits [s1, s2])
       \<le> (int_of_digits [y1', y2', y3', y4'], int_of_digits [m1', m2'],
             int_of_digits [d1', d2'], int_of_digits [h1', h2'], int_of_digits [n1', n2'],
             int_of_digits [s1', s2'])"
proof -
  define P Q M D H N S where "P = int_of_digits [y1, y2]" and "Q = int_of_digits [y3, y4]"
    and "M = int_of_digits [m1, m2]" and "D = int_of_digits [d1, d2]"
    and "H = int_of_digits [h1, h2]" and "N = int_of_digits [n1, n2]"
    and "S = int_of_digits [s1, s2]"
  define P' Q' M' D' H' N' S' where "P' = int_of_digits [y1', y2']" and "Q' = int_of_digits [y3', y4']"
    and "M' = int_of_digits [m1', m2']" and "D' = int_of_digits [d1', d2']"
    and "H' = int_of_digits [h1', h2']" and "N' = int_of_digits [n1', n2']"
    and "S' = int_of_digits [s1', s2']"
  note defs = P_def Q_def M_def D_def H_def N_def S_def P'_def Q'_def M'_def D'_def H'_def N'_def S'_def
  have sep: "\<And>c x y. (c # x \<le> c # y) = (x \<le> (y :: string))"
    by simp
  from a have da: "is_digit y1" "is_digit y2" "is_digit y3" "is_digit y4" "is_digit m1"
    "is_digit m2" "is_digit d1" "is_digit d2" "is_digit h1" "is_digit h2" "is_digit n1"
    "is_digit n2" "is_digit s1" "is_digit s2"
    by simp_all
  from b have db: "is_digit y1'" "is_digit y2'" "is_digit y3'" "is_digit y4'" "is_digit m1'"
    "is_digit m2'" "is_digit d1'" "is_digit d2'" "is_digit h1'" "is_digit h2'" "is_digit n1'"
    "is_digit n2'" "is_digit s1'" "is_digit s2'"
    by simp_all
  note pairs =
    two_digits_le [OF da(1) da(2) db(1) db(2)] two_digits_le [OF da(3) da(4) db(3) db(4)]
    two_digits_le [OF da(5) da(6) db(5) db(6)] two_digits_le [OF da(7) da(8) db(7) db(8)]
    two_digits_le [OF da(9) da(10) db(9) db(10)] two_digits_le [OF da(11) da(12) db(11) db(12)]
    two_digits_le [OF da(13) da(14) db(13) db(14)]
  have "[y1, y2, y3, y4, CHR ''-'', m1, m2, CHR ''-'', d1, d2, CHR ''T'',
                   h1, h2, CHR '':'', n1, n2, CHR '':'', s1, s2]
       \<le> [y1', y2', y3', y4', CHR ''-'', m1', m2', CHR ''-'', d1', d2', CHR ''T'',
                   h1', h2', CHR '':'', n1', n2', CHR '':'', s1', s2']
    \<longleftrightarrow> (P < P' \<or> P = P' \<and> (Q < Q' \<or> Q = Q' \<and> (M < M' \<or> M = M' \<and>
          (D < D' \<or> D = D' \<and> (H < H' \<or> H = H' \<and> (N < N' \<or> N = N' \<and>
          (S < S' \<or> S = S' \<and> ([] :: string) \<le> [])))))))"
    unfolding defs by (simp only: pairs sep)
  then have lhs: "[y1, y2, y3, y4, CHR ''-'', m1, m2, CHR ''-'', d1, d2, CHR ''T'',
                   h1, h2, CHR '':'', n1, n2, CHR '':'', s1, s2]
       \<le> [y1', y2', y3', y4', CHR ''-'', m1', m2', CHR ''-'', d1', d2', CHR ''T'',
                   h1', h2', CHR '':'', n1', n2', CHR '':'', s1', s2']
    \<longleftrightarrow> (P < P' \<or> P = P' \<and> (Q < Q' \<or> Q = Q' \<and> (M < M' \<or> M = M' \<and>
          (D < D' \<or> D = D' \<and> (H < H' \<or> H = H' \<and> (N < N' \<or> N = N' \<and> S \<le> S'))))))"
    by (simp add: le_less)
  have bounds: "Q \<le> 99" "Q' \<le> 99"
    using a b unfolding defs by (simp_all add: two_digits_bound)
  have rhs: "(int_of_digits [y1, y2, y3, y4], M, D, H, N, S)
       \<le> (int_of_digits [y1', y2', y3', y4'], M', D', H', N', S')
    \<longleftrightarrow> (P < P' \<or> P = P' \<and> (Q < Q' \<or> Q = Q' \<and> (M < M' \<or> M = M' \<and>
          (D < D' \<or> D = D' \<and> (H < H' \<or> H = H' \<and> (N < N' \<or> N = N' \<and> S \<le> S'))))))"
    using bounds unfolding four_digits_split P_def [symmetric] Q_def [symmetric]
      P'_def [symmetric] Q'_def [symmetric]
    by (auto simp add: less_eq_prod_def less_prod_def)
  show ?thesis
    unfolding lhs M_def [symmetric] D_def [symmetric] H_def [symmetric] N_def [symmetric]
      S_def [symmetric] M'_def [symmetric] D'_def [symmetric] H'_def [symmetric]
      N'_def [symmetric] S'_def [symmetric] rhs ..
qed

lemma canonical_mono:
  assumes "canonical a" and "canonical b" and "strptime a = Inr ta" and "strptime b = Inr tb"
    and "a \<le> b"
  shows "chron ta \<le> chron tb"
proof -
  from assms(1) obtain y1 y2 y3 y4 m1 m2 d1 d2 h1 h2 n1 n2 s1 s2 where
    a: "a = [y1, y2, y3, y4, CHR ''-'', m1, m2, CHR ''-'', d1, d2, CHR ''T'',
                   h1, h2, CHR '':'', n1, n2, CHR '':'', s1, s2]"
    and da: "list_all is_digit [y1, y2, y3, y4, m1, m2, d1, d2, h1, h2, n1, n2, s1, s2]"
    by (auto elim!: canonical.elims)
  from assms(2) obtain y1' y2' y3' y4' m1' m2' d1' d2' h1' h2' n1' n2' s1' s2' where
    b: "b = [y1', y2', y3', y4', CHR ''-'', m1', m2', CHR ''-'', d1', d2', CHR ''T'',
                   h1', h2', CHR '':'', n1', n2', CHR '':'', s1', s2']"
    and db: "list_all is_digit [y1', y2', y3', y4', m1', m2', d1', d2', h1', h2', n1', n2', s1', s2']"
    by (auto elim!: canonical.elims)
  from assms(5) show ?thesis
    unfolding strptime_canonical_chron [OF da assms(3) [unfolded a]]
      strptime_canonical_chron [OF db assms(4) [unfolded b]]
      a b canonical_le [OF da db] .
qed


section \<open>The output in chronological order\<close>

lemma map_utc_update:
  assumes "utc_datetime x = utc_datetime (xs ! i)"
  shows "map utc_datetime (xs[i := x]) = map utc_datetime xs"
proof (cases "i < length xs")
  case True
  have "map utc_datetime (xs[i := x]) = (map utc_datetime xs)[i := utc_datetime (xs ! i)]"
    by (simp only: map_update assms)
  also have "\<dots> = (map utc_datetime xs)[i := map utc_datetime xs ! i]"
    using True by (simp only: nth_map)
  also have "\<dots> = map utc_datetime xs"
    by (rule list_update_id)
  finally show ?thesis .
next
  case False
  then show ?thesis by (simp only: list_update_beyond not_less)
qed

lemma loop_body_utc:
  assumes "loop_body self g s item = Inr s'"
  shows "map utc_datetime (aggregated_data s') = map utc_datetime (aggregated_data s)
    \<or> (\<exists>t. parsed_time item = Inr t
          \<and> map utc_datetime (aggregated_data s') = map utc_datetime (aggregated_data s) @ [t])"
  using assms
proof (cases rule: loop_body_cases)
  case (merged time)
  from merge_item_shape [OF merged(4)] obtain i t p v where
    s': "s' = s\<lparr>aggregated_data := (aggregated_data s)[i := (aggregated_data s ! i)
                    \<lparr>temperature := t, pressure := p, speed := v\<rparr>]\<rparr>"
    by blast
  have "map utc_datetime (aggregated_data s') = map utc_datetime (aggregated_data s)"
    unfolding s' by (simp add: map_utc_update)
  then show ?thesis ..
next
  case (appended time)
  from new_item_shape [OF appended(2)] obtain b where
    "aggregated_data s' = aggregated_data s @ [b]" "utc_datetime b = time"
    by auto
  with appended(1) show ?thesis by simp
qed


lemma loop_chronological:
  assumes "sorted (map chron (map utc_datetime (aggregated_data s)))"
    and "\<forall>u\<in>set (map utc_datetime (aggregated_data s)). \<forall>r\<in>set items. \<forall>t.
           parsed_time r = Inr t \<longrightarrow> chron u \<le> chron t"
    and "sorted_wrt (\<lambda>a b. \<forall>ta tb. parsed_time a = Inr ta \<longrightarrow> parsed_time b = Inr tb \<longrightarrow>
           chron ta \<le> chron tb) items"
    and "loop self g s items = Inr s'"
  shows "sorted (map chron (map utc_datetime (aggregated_data s')))"
  using assms
proof (induction items arbitrary: s)
  case Nil
  then show ?case by simp
next
  case (Cons r rs)
  from Cons.prems(4) obtain s1 where step: "loop_body self g s r = Inr s1"
    and rest: "loop self g s1 rs = Inr s'"
    by (auto split: sum.splits)
  let ?U = "map utc_datetime (aggregated_data s)"
  let ?U1 = "map utc_datetime (aggregated_data s1)"
  from Cons.prems(3) have srt: "sorted_wrt (\<lambda>a b. \<forall>ta tb. parsed_time a = Inr ta \<longrightarrow>
      parsed_time b = Inr tb \<longrightarrow> chron ta \<le> chron tb) rs"
    and first: "\<forall>x\<in>set rs. \<forall>ta tb. parsed_time r = Inr ta \<longrightarrow> parsed_time x = Inr tb \<longrightarrow>
      chron ta \<le> chron tb"
    by simp_all
  from Cons.prems(2) have below_r: "\<forall>u\<in>set ?U. \<forall>t. parsed_time r = Inr t \<longrightarrow> chron u \<le> chron t"
    and below_rs: "\<forall>u\<in>set ?U. \<forall>x\<in>set rs. \<forall>t. parsed_time x = Inr t \<longrightarrow> chron u \<le> chron t"
    by simp_all
  from loop_body_utc [OF step]
  have "sorted (map chron ?U1)
    \<and> (\<forall>u\<in>set ?U1. \<forall>x\<in>set rs. \<forall>t. parsed_time x = Inr t \<longrightarrow> chron u \<le> chron t)"
  proof
    assume "?U1 = ?U"
    with Cons.prems(1) below_rs show ?thesis by simp
  next
    assume "\<exists>t. parsed_time r = Inr t \<and> ?U1 = ?U @ [t]"
    then obtain t where t: "parsed_time r = Inr t" "?U1 = ?U @ [t]"
      by blast
    from below_r t(1) have le: "\<forall>u\<in>set ?U. chron u \<le> chron t"
      by blast
    have s1: "sorted (map chron (?U @ [t]))"
      using Cons.prems(1) le by (simp add: sorted_append)
    have b1: "\<forall>u\<in>set (?U @ [t]). \<forall>x\<in>set rs. \<forall>ta. parsed_time x = Inr ta \<longrightarrow> chron u \<le> chron ta"
    proof (intro ballI allI impI)
      fix u x ta
      assume u: "u \<in> set (?U @ [t])" and x: "x \<in> set rs" and ta: "parsed_time x = Inr ta"
      from u have "u \<in> set ?U \<or> u = t" by auto
      then show "chron u \<le> chron ta"
      proof
        assume "u \<in> set ?U"
        with below_rs x ta show ?thesis by blast
      next
        assume "u = t"
        with first x ta t(1) show ?thesis by blast
      qed
    qed
    from s1 b1 show ?thesis
      unfolding t(2) by (rule conjI)
  qed
  then have c1: "sorted (map chron ?U1)"
    and b1: "\<forall>u\<in>set ?U1. \<forall>x\<in>set rs. \<forall>t. parsed_time x = Inr t \<longrightarrow> chron u \<le> chron t"
    by blast+
  from Cons.IH [OF c1 b1 srt rest] show ?case .
qed


lemma canonical_record_key:
  assumes "canonical_record r"
  shows "effective_key r = Inr (PyStr (str_key r))" and "canonical (str_key r)"
    and "parsed_time r = strptime (str_key r)"
proof -
  from assms obtain f where f: "r ''fhora'' = Some (PyStr f)" "canonical f"
    by (auto simp add: canonical_record_def split: option.splits pyval.splits)
  then have k: "effective_key r = Inr (PyStr f)"
    by (simp add: effective_key_def getitem_def dom_def)
  then have "str_key r = f"
    by (simp add: str_key_def)
  with f k show "effective_key r = Inr (PyStr (str_key r))" and "canonical (str_key r)"
    and "parsed_time r = strptime (str_key r)"
    by (simp_all add: parsed_time_def getitem_def)
qed

text \<open>
  Claim C3, amended: for every input dataset whose \<open>fhora\<close> strings are all in
  the zero-padded format \<open>YYYY-MM-DDTHH:MM:SS\<close>, the sequence that
  \<open>aggregate_data\<close> returns is chronologically non-decreasing by \<open>utc_datetime\<close>,
  at every granularity.
\<close>

theorem aggregate_chronological:
  assumes "get_dataset net url = Inr data"
    and "\<forall>r\<in>set data. canonical_record r"
    and "aggregate_data self net (PyStr url) g = (Inr out, io)"
  shows "chronological out"
proof (cases "data = []")
  case True
  with assms(1,3) show ?thesis
    by (simp add: aggregate_data_fetch aggregate_rows_def chronological_def)
next
  case False
  let ?sd = "sort_key str_key data"
  have "\<forall>r\<in>set data. effective_key r = Inr (PyStr (str_key r))"
    using assms(2) by (simp add: canonical_record_key(1))
  then have sd: "sort_data data = Inr ?sd"
    using sort_data_generic [of PyStr data str_key] by simp
  from assms(1,3) have "aggregate_rows self data g = Inr out"
    by (simp add: aggregate_data_fetch)
  with False sd obtain s' where l: "loop self g \<lparr>aggregated_data = [], aggregated_item = None\<rparr> ?sd = Inr s'"
    and out: "out = aggregated_data s'"
    by (auto simp add: aggregate_rows_def split: sum.splits)
  have "sorted (map str_key ?sd)"
    by (rule sorted_sort_key)
  then have "sorted_wrt (\<lambda>a b. str_key a \<le> str_key b) ?sd"
    by (simp add: sorted_map)
  then have srt: "sorted_wrt (\<lambda>a b. \<forall>ta tb. parsed_time a = Inr ta \<longrightarrow> parsed_time b = Inr tb \<longrightarrow>
           chron ta \<le> chron tb) ?sd"
  proof (rule sorted_wrt_mono_rel [rotated])
    fix a b
    assume a: "a \<in> set ?sd" and b: "b \<in> set ?sd" and le: "str_key a \<le> str_key b"
    from a b assms(2) have ca: "canonical_record a" and cb: "canonical_record b"
      by simp_all
    show "\<forall>ta tb. parsed_time a = Inr ta \<longrightarrow> parsed_time b = Inr tb \<longrightarrow> chron ta \<le> chron tb"
    proof (intro allI impI)
      fix ta tb
      assume "parsed_time a = Inr ta" "parsed_time b = Inr tb"
      then have "strptime (str_key a) = Inr ta" "strptime (str_key b) = Inr tb"
        by (simp_all add: canonical_record_key(3) [OF ca] canonical_record_key(3) [OF cb])
      with canonical_record_key(2) [OF ca] canonical_record_key(2) [OF cb] le
      show "chron ta \<le> chron tb"
        by (intro canonical_mono [of "str_key a" "str_key b"])
    qed
  qed
  have "sorted (map chron (map utc_datetime (aggregated_data s')))"
    by (rule loop_chronological [OF _ _ srt l]) simp_all
  then show ?thesis
    by (simp add: chronological_def out comp_def)
qed

text \<open>
  Claim C3, as stated, covers every input dataset. The records are sorted by the
  text of \<open>fhora\<close>, and \<open>strptime\<close> also accepts fields that are not zero-padded:
  \<open>2022-7-01T00:00:00\<close> is 1 July, and as text it comes after
  \<open>2022-10-01T00:00:00\<close>. The output then has October before July.
\<close>

theorem aggregate_chronological_counterexample:
  "aggregate_data (AEMETApi ''key'' utc_zone)
     (serving empty_ok_response
        [raw_observation ''2022-7-01T00:00:00'' ''JCI'' 10 1000 3,
         raw_observation ''2022-10-01T00:00:00'' ''JCI'' 20 1002 5])
     (PyStr ''https://opendata.aemet.es/opendata/sh/0123'') (Some ''Monthly'')
   = (Inr [\<lparr>station = PyStr ''JCI'',
            utc_datetime = \<lparr>year = 2022, month = 10, day = 1, hour = 0, minute = 0, second = 0\<rparr>,
            datetime = (\<lparr>year = 2022, month = 10, day = 1, hour = 0, minute = 0, second = 0\<rparr>, 0),
            temperature = PyNum 20, pressure = PyNum 1002, speed = PyNum 5\<rparr>,
           \<lparr>station = PyStr ''JCI'',
            utc_datetime = \<lparr>year = 2022, month = 7, day = 1, hour = 0, minute = 0, second = 0\<rparr>,
            datetime = (\<lparr>year = 2022, month = 7, day = 1, hour = 0, minute = 0, second = 0\<rparr>, 0),
            temperature = PyNum 10, pressure = PyNum 1000, speed = PyNum 3\<rparr>],
      [''https://opendata.aemet.es/opendata/sh/0123''])
   \<and> \<not> chronological
        [\<lparr>station = PyStr ''JCI'',
            utc_datetime = \<lparr>year = 2022, month = 10, day = 1, hour = 0, minute = 0, second = 0\<rparr>,
            datetime = (\<lparr>year = 2022, month = 10, day = 1, hour = 0, minute = 0, second = 0\<rparr>, 0),
            temperature = PyNum 20, pressure = PyNum 1002, speed = PyNum 5\<rparr>,
           \<lparr>station = PyStr ''JCI'',
            utc_datetime = \<lparr>year = 2022, month = 7, day = 1, hour = 0, minute = 0, second = 0\<rparr>,
            datetime = (\<lparr>year = 2022, month = 7, day = 1, hour = 0, minute = 0, second = 0\<rparr>, 0),
            temperature = PyNum 10, pressure = PyNum 1000, speed = PyNum 3\<rparr>]"
  by (simp add: aggregate_data_def serving_def aggregate_rows_def sort_data_def effective_key_def
      loop_body_def truthy_def aggregate_def merge_item_def new_item_def AEMETApi_def utc_zone_def
      chronological_def chron_def eval_record eval_strptime)

theorem aggregate_chronological_witness:
  "get_dataset (serving empty_ok_response
        [raw_observation ''2022-10-01T00:00:00'' ''JCI'' 20 1002 5,
         raw_observation ''2022-07-01T00:00:00'' ''JCI'' 10 1000 3])
      ''https://opendata.aemet.es/opendata/sh/0123''
     = Inr [raw_observation ''2022-10-01T00:00:00'' ''JCI'' 20 1002 5,
            raw_observation ''2022-07-01T00:00:00'' ''JCI'' 10 1000 3]
   \<and> canonical_record (raw_observation ''2022-10-01T00:00:00'' ''JCI'' 20 1002 5)
   \<and> canonical_record (raw_observation ''2022-07-01T00:00:00'' ''JCI'' 10 1000 3)
   \<and> aggregate_data (AEMETApi ''key'' utc_zone)
       (serving empty_ok_response
          [raw_observation ''2022-10-01T00:00:00'' ''JCI'' 20 1002 5,
           raw_observation ''2022-07-01T00:00:00'' ''JCI'' 10 1000 3])
       (PyStr ''https://opendata.aemet.es/opendata/sh/0123'') (Some ''Monthly'')
     = (Inr [\<lparr>station = PyStr ''JCI'',
            utc_datetime = \<lparr>year = 2022, month = 7, day = 1, hour = 0, minute = 0, second = 0\<rparr>,
            datetime = (\<lparr>year = 2022, month = 7, day = 1, hour = 0, minute = 0, second = 0\<rparr>, 0),
            temperature = PyNum 10, pressure = PyNum 1000, speed = PyNum 3\<rparr>,
           \<lparr>station = PyStr ''JCI'',
            utc_datetime = \<lparr>year = 2022, month = 10, day = 1, hour = 0, minute = 0, second = 0\<rparr>,
            datetime = (\<lparr>year = 2022, month = 10, day = 1, hour = 0, minute = 0, second = 0\<rparr>, 0),
            temperature = PyNum 20, pressure = PyNum 1002, speed = PyNum 5\<rparr>],
        [''https://opendata.aemet.es/opendata/sh/0123''])
   \<and> chronological
        [\<lparr>station = PyStr ''JCI'',
            utc_datetime = \<lparr>year = 2022, month = 7, day = 1, hour = 0, minute = 0, second = 0\<rparr>,
            datetime = (\<lparr>year = 2022, month = 7, day = 1, hour = 0, minute = 0, second = 0\<rparr>, 0),
            temperature = PyNum 10, pressure = PyNum 1000, speed = PyNum 3\<rparr>,
           \<lparr>station = PyStr ''JCI'',
            utc_datetime = \<lparr>year = 2022, month = 10, day = 1, hour = 0, minute = 0, second = 0\<rparr>,
            datetime = (\<lparr>year = 2022, month = 10, day = 1, hour = 0, minute = 0, second = 0\<rparr>, 0),
            temperature = PyNum 20, pressure = PyNum 1002, speed = PyNum 5\<rparr>]"
proof -
  let ?data = "[raw_observation ''2022-10-01T00:00:00'' ''JCI'' 20 1002 5,
                raw_observation ''2022-07-01T00:00:00'' ''JCI'' 10 1000 3]"
  have g: "get_dataset (serving empty_ok_response ?data)
      ''https://opendata.aemet.es/opendata/sh/0123'' = Inr ?data"
    by (simp add: serving_def)
  have c1: "canonical_record (raw_observation ''2022-10-01T00:00:00'' ''JCI'' 20 1002 5)"
    and c2: "canonical_record (raw_observation ''2022-07-01T00:00:00'' ''JCI'' 10 1000 3)"
    by (simp_all add: canonical_record_def raw_observation_def is_digit_def)
  then have c: "\<forall>r\<in>set ?data. canonical_record r"
    by simp
  have a: "aggregate_data (AEMETApi ''key'' utc_zone) (serving empty_ok_response ?data)
       (PyStr ''https://opendata.aemet.es/opendata/sh/0123'') (Some ''Monthly'')
     = (Inr [\<lparr>station = PyStr ''JCI'',
            utc_datetime = \<lparr>year = 2022, month = 7, day = 1, hour = 0, minute = 0, second = 0\<rparr>,
            datetime = (\<lparr>year = 2022, month = 7, day = 1, hour = 0, minute = 0, second = 0\<rparr>, 0),
            temperature = PyNum 10, pressure = PyNum 1000, speed = PyNum 3\<rparr>,
           \<lparr>station = PyStr ''JCI'',
            utc_datetime = \<lparr>year = 2022, month = 10, day = 1, hour = 0, minute = 0, second = 0\<rparr>,
            datetime = (\<lparr>year = 2022, month = 10, day = 1, hour = 0, minute = 0, second = 0\<rparr>, 0),
            temperature = PyNum 20, pressure = PyNum 1002, speed = PyNum 5\<rparr>],
        [''https://opendata.aemet.es/opendata/sh/0123''])"
    by (simp add: aggregate_data_def serving_def aggregate_rows_def sort_data_def effective_key_def
      loop_body_def truthy_def aggregate_def merge_item_def new_item_def AEMETApi_def utc_zone_def
      eval_record eval_strptime)
  from g c1 c2 a aggregate_chronological [OF g c a] show ?thesis
    by (intro conjI)
qed

end
